theory Spec2Isabelle
  imports Main "HOL-Library.Sublist" "HOL-Library.Char_ord" "HOL-Library.List_Lexorder"
begin

section \<open>The Cordova build-configuration step\<close>

text \<open>
  \<^verbatim>\<open>src/main.go\<close> holds two revisions of the same program, one after the other.
  The first (lines 1-229) reads its inputs with \<^verbatim>\<open>os.Getenv\<close>, checks the two
  enumerated fields with \<^verbatim>\<open>configs.validate()\<close> and logs the generated document as it
  is. The second (lines 230-430) reads its inputs with \<^verbatim>\<open>stepconf.Parse\<close>, has no
  \<^verbatim>\<open>validate\<close>, and masks the two passwords in the logged document. The functions
  \<^verbatim>\<open>download\<close>, \<^verbatim>\<open>exportEnvironmentWithEnvman\<close> and \<^verbatim>\<open>fail\<close> and the three
  document structs are the same text in both. Both \<^verbatim>\<open>main\<close> functions are modelled:
  \<open>main_input\<close> for the first and \<open>main_stepconf\<close> for the second, named after the
  package each uses to read its inputs.
\<close>

subsection \<open>Data model\<close>

text \<open>
  \<^verbatim>\<open>ConfigsModel\<close>. In the second revision the two password fields have the type
  \<^verbatim>\<open>stepconf.Secret\<close>, a string type that \<^verbatim>\<open>main\<close> converts back with
  \<^verbatim>\<open>string(...)\<close>.
\<close>

type_synonym Secret = string

record ConfigsModel =
  Configuration :: string
  DevelopmentTeam :: string
  CodeSignIdentity :: string
  ProvisioningProfile :: string
  PackageType :: string
  KeystoreURL :: string
  KeystorePassword :: Secret
  KeystoreAlias :: string
  PrivateKeyPassword :: Secret

text \<open>
  The two item structs. The fields of \<^verbatim>\<open>IOSBuildConfigurationItem\<close> carry the suffix
  \<open>_item\<close> because three of them share their names with fields of \<^verbatim>\<open>ConfigsModel\<close>.
\<close>

record IOSBuildConfigurationItem =
  CodeSignIdentity_item :: string
  ProvisioningProfile_item :: string
  DevelopmentTeam_item :: string
  PackageType_item :: string

record AndroidBuildConfigurationItem =
  Keystore :: string
  StorePassword :: string
  Alias :: string
  Password :: string

text \<open>
  A Go \<^verbatim>\<open>map[string]T\<close> is an association list with distinct keys; the nil map is
  the empty list, \<^verbatim>\<open>len\<close> is \<open>length\<close>, \<^verbatim>\<open>m[k]\<close> with the comma-ok form is
  \<open>map_of m k\<close>, and \<^verbatim>\<open>m[k] = v\<close> is \<open>map_assign\<close>. The order of the list carries
  no meaning: the serializer sorts the keys.
\<close>

type_synonym 'v gomap = "(string \<times> 'v) list"

fun map_assign :: "string \<Rightarrow> 'v \<Rightarrow> 'v gomap \<Rightarrow> 'v gomap" where
  "map_assign k v [] = [(k, v)]"
| "map_assign k v ((k', v') # m) =
     (if k' = k then (k, v) # m else (k', v') # map_assign k v m)"

record BuildConfiguration =
  Android :: "AndroidBuildConfigurationItem gomap"
  IOS :: "IOSBuildConfigurationItem gomap"

subsection \<open>Errors, log lines and calls to the outside\<close>

text \<open>
  A Go \<^verbatim>\<open>error\<close> value. The two errors of \<^verbatim>\<open>input.ValidateWithOptions\<close>, the
  wrapping done by \<^verbatim>\<open>fmt.Errorf("Configuration: %s", err)\<close>, the error of
  \<^verbatim>\<open>stepconf.Parse\<close> for a missing required field, \<^verbatim>\<open>os.ErrInvalid\<close>, and any
  error handed back by the operating system, the network or \<^verbatim>\<open>envman\<close> (its text
  comes from outside).
\<close>

datatype error =
    ParameterNotSpecified
  | InvalidParameter string "string list"
  | Wrapped string error
  | RequiredNotPresent string
  | ErrInvalid
  | External string

datatype arg = Str string | Err error | File "string option"

datatype level = Infof | Printf | Warnf | Errorf | Donef

text \<open>
  Everything a run does to the outside, in order: the log calls (with the format string
  and the arguments as the code passes them; the expansion of the format is the logging
  library's), the printing of the parsed configuration by \<^verbatim>\<open>stepconf.Print\<close>, the
  creation of the scratch directory, and the calls of \<^verbatim>\<open>download\<close>, of
  \<^verbatim>\<open>fileutil.WriteBytesToFile\<close> and of \<^verbatim>\<open>envman add\<close>.
\<close>

datatype event =
    Println
  | Log level string "arg list"
  | StepconfPrint ConfigsModel
  | TempDir string
  | OsCreate string
  | HttpGet string
  | IoCopy string
  | BodyClose
  | FileClose "string option"
  | WriteBytesToFile string string
  | EnvmanAdd string string

record response =
  StatusCode :: nat
  Body :: string

text \<open>
  What the outside answers. \<open>getenv\<close> is \<^verbatim>\<open>os.Getenv\<close> (the empty string for an
  unset variable); the other fields give the result of each call of a library function
  that touches the operating system or the network: an error, or the value returned.
  \<open>io_Copy\<close> takes the open file (\<open>None\<close> when \<^verbatim>\<open>os.Create\<close> failed and \<^verbatim>\<open>out\<close>
  is nil) and the response body.
\<close>

record world =
  getenv :: "string \<Rightarrow> string"
  NormalizedOSTempDirPath :: "string \<Rightarrow> error + string"
  AbsPath :: "string \<Rightarrow> error + string"
  os_Create :: "string \<Rightarrow> error option"
  http_Get :: "string \<Rightarrow> error + response"
  io_Copy :: "string option \<Rightarrow> string \<Rightarrow> error option"
  body_Close :: "string \<Rightarrow> error option"
  file_Close :: "string \<Rightarrow> error option"
  fileutil_WriteBytesToFile :: "string \<Rightarrow> string \<Rightarrow> error option"
  envman_add :: "string \<Rightarrow> string \<Rightarrow> error option"

text \<open>The end of a run: the exit status and the calls made up to it.\<close>

record result =
  exit_code :: nat
  trace :: "event list"

subsection \<open>Library functions with a fixed meaning\<close>

text \<open>\<^verbatim>\<open>strings.HasPrefix\<close> and \<^verbatim>\<open>strings.TrimPrefix\<close>.\<close>

definition HasPrefix :: "string \<Rightarrow> string \<Rightarrow> bool" where
  "HasPrefix s p = (take (length p) s = p)"

definition TrimPrefix :: "string \<Rightarrow> string \<Rightarrow> string" where
  "TrimPrefix s p = (if HasPrefix s p then drop (length p) s else s)"

text \<open>
  \<^verbatim>\<open>input.ValidateWithOptions\<close> of go-steputils: the empty value is
  "parameter not specified", a value that is none of the options is "invalid parameter".
\<close>

definition ValidateWithOptions :: "string \<Rightarrow> string list \<Rightarrow> error option" where
  "ValidateWithOptions v options =
     (if v = [] then Some ParameterNotSpecified
      else if v \<in> set options then None
      else Some (InvalidParameter v options))"

text \<open>
  \<^verbatim>\<open>path.Clean\<close>, the lexical path simplification behind \<^verbatim>\<open>path.Join\<close> (and, on the
  Unix systems the step runs on, behind \<^verbatim>\<open>filepath.Join\<close>). \<open>backtrack\<close> is the
  inner loop that removes the last element for a \<^verbatim>\<open>..\<close>; \<open>clean_loop\<close> is the loop
  over the input, with the output buffer \<open>out\<close> and the index \<open>dotdot\<close> below which
  nothing is removed.
\<close>

fun backtrack :: "string \<Rightarrow> nat \<Rightarrow> nat \<Rightarrow> nat" where
  "backtrack buf dotdot 0 = 0"
| "backtrack buf dotdot (Suc w) =
     (if Suc w > dotdot \<and> buf ! Suc w \<noteq> CHR ''/'' then backtrack buf dotdot w else Suc w)"

function clean_loop :: "bool \<Rightarrow> string \<Rightarrow> string \<Rightarrow> nat \<Rightarrow> string" where
  "clean_loop rooted [] out dotdot = out"
| "clean_loop rooted (c # rest) out dotdot =
     (if c = CHR ''/'' then clean_loop rooted rest out dotdot
      else if c = CHR ''.'' \<and> (rest = [] \<or> hd rest = CHR ''/'') then
        clean_loop rooted rest out dotdot
      else if c = CHR ''.'' \<and> hd rest = CHR ''.'' \<and> (tl rest = [] \<or> hd (tl rest) = CHR ''/'') then
        (if length out > dotdot then
           clean_loop rooted (tl rest) (take (backtrack out dotdot (length out - 1)) out) dotdot
         else if \<not> rooted then
           (let out' = (if length out > 0 then out @ ''/'' else out) @ ''..''
            in clean_loop rooted (tl rest) out' (length out'))
         else clean_loop rooted (tl rest) out dotdot)
      else
        (let out' = (if rooted \<and> length out \<noteq> 1 \<or> \<not> rooted \<and> length out \<noteq> 0
                     then out @ ''/'' else out)
         in clean_loop rooted (dropWhile (\<lambda>x. x \<noteq> CHR ''/'') (c # rest))
              (out' @ takeWhile (\<lambda>x. x \<noteq> CHR ''/'') (c # rest)) dotdot))"
  by pat_completeness auto
termination
proof (relation "measure (\<lambda>(rooted, p, out, dotdot). length p)")
  show "wf (measure (\<lambda>(rooted, p, out, dotdot). length p))" by simp
next
  fix rooted :: bool and c :: char and rest out :: string and dotdot :: nat and x :: string
  assume "c \<noteq> CHR ''/''"
  have "length (dropWhile (\<lambda>x. x \<noteq> CHR ''/'') rest) \<le> length rest"
    by (rule length_dropWhile_le)
  with \<open>c \<noteq> CHR ''/''\<close>
  show "((rooted, dropWhile (\<lambda>x. x \<noteq> CHR ''/'') (c # rest),
          x @ takeWhile (\<lambda>x. x \<noteq> CHR ''/'') (c # rest), dotdot),
         (rooted, c # rest, out, dotdot)) \<in> measure (\<lambda>(rooted, p, out, dotdot). length p)"
    by simp
qed (auto simp: less_Suc_eq_le)

definition Clean :: "string \<Rightarrow> string" where
  "Clean p =
     (if p = [] then ''.''
      else
        (let rooted = (hd p = CHR ''/'');
             out = (if rooted then clean_loop True (tl p) ''/'' 1
                    else clean_loop False p [] 0)
         in if out = [] then ''.'' else out))"

text \<open>
  \<^verbatim>\<open>path.Join\<close> of two elements: the elements from the first non-empty one on are
  joined with a slash and cleaned; the result is empty only when both are empty.
\<close>

definition Join :: "string \<Rightarrow> string \<Rightarrow> string" where
  "Join a b =
     (if a = [] \<and> b = [] then []
      else if a = [] then Clean b
      else Clean (a @ ''/'' @ b))"

subsection \<open>Serialization\<close>

text \<open>
  The JSON values the three structs can produce: strings and objects. The struct tags
  decide the member names, their order (the order of the fields) and, through
  \<^verbatim>\<open>omitempty\<close>, that an empty string and an empty map are left out. A map is
  written with its keys sorted.
\<close>

datatype json = JString string | JObject "(string \<times> json) list"

definition omitempty :: "(string \<times> string) list \<Rightarrow> (string \<times> json) list" where
  "omitempty fs = map (\<lambda>(k, v). (k, JString v)) (filter (\<lambda>(k, v). v \<noteq> []) fs)"

definition marshal_IOSBuildConfigurationItem :: "IOSBuildConfigurationItem \<Rightarrow> json" where
  "marshal_IOSBuildConfigurationItem i =
     JObject (omitempty
       [(''codeSignIdentity'', CodeSignIdentity_item i),
        (''provisioningProfile'', ProvisioningProfile_item i),
        (''developmentTeam'', DevelopmentTeam_item i),
        (''packageType'', PackageType_item i)])"

definition marshal_AndroidBuildConfigurationItem :: "AndroidBuildConfigurationItem \<Rightarrow> json" where
  "marshal_AndroidBuildConfigurationItem a =
     JObject (omitempty
       [(''keystore'', Keystore a),
        (''storePassword'', StorePassword a),
        (''alias'', Alias a),
        (''password'', Password a)])"

definition marshal_map :: "('v \<Rightarrow> json) \<Rightarrow> 'v gomap \<Rightarrow> json" where
  "marshal_map f m = JObject (map (\<lambda>(k, v). (k, f v)) (sort_key fst m))"

definition marshal_BuildConfiguration :: "BuildConfiguration \<Rightarrow> json" where
  "marshal_BuildConfiguration bc =
     JObject
       ((if length (Android bc) = 0 then []
         else [(''android'', marshal_map marshal_AndroidBuildConfigurationItem (Android bc))]) @
        (if length (IOS bc) = 0 then []
         else [(''ios'', marshal_map marshal_IOSBuildConfigurationItem (IOS bc))]))"

text \<open>
  The text of a JSON value as \<^verbatim>\<open>json.MarshalIndent(v, "", "  ")\<close> lays it out: one
  member per line, two spaces per level, a colon and a space after the name, an empty
  object as \<^verbatim>\<open>{}\<close>. The encoding of a string (the quotes and the escapes) is the
  parameter \<open>enc\<close>: no property below depends on which characters the library escapes.
\<close>

definition spaces :: "nat \<Rightarrow> string" where
  "spaces d = concat (replicate d ''  '')"

fun indent_json :: "(string \<Rightarrow> string) \<Rightarrow> nat \<Rightarrow> json \<Rightarrow> string"
  and indent_members :: "(string \<Rightarrow> string) \<Rightarrow> nat \<Rightarrow> (string \<times> json) list \<Rightarrow> string" where
  "indent_json enc d (JString s) = enc s"
| "indent_json enc d (JObject []) = ''{}''"
| "indent_json enc d (JObject (m # ms)) =
     ''{'' @ [CHR 0x0A] @ indent_members enc (Suc d) (m # ms) @ [CHR 0x0A] @ spaces d @ ''}''"
| "indent_members enc d [] = []"
| "indent_members enc d ((k, v) # ms) =
     spaces d @ enc k @ '': '' @ indent_json enc d v @
     (if ms = [] then [] else '','' @ [CHR 0x0A] @ indent_members enc d ms)"

text \<open>
  \<^verbatim>\<open>json.MarshalIndent(buildConfig, "", "  ")\<close>. It returns no error for a value of
  this type (strings and maps of structs of strings), so the \<^verbatim>\<open>fail\<close> after each
  call is never reached and has no branch here.
\<close>

definition MarshalIndent :: "(string \<Rightarrow> string) \<Rightarrow> BuildConfiguration \<Rightarrow> string" where
  "MarshalIndent enc bc = indent_json enc 0 (marshal_BuildConfiguration bc)"

subsection \<open>The functions shared by the two revisions\<close>

text \<open>
  \<^verbatim>\<open>fail\<close>: an error line, then \<^verbatim>\<open>os.Exit(1)\<close>. \<open>tr\<close> is the trace so far.
\<close>

definition fail :: "event list \<Rightarrow> string \<Rightarrow> arg list \<Rightarrow> result" where
  "fail tr format v = \<lparr>exit_code = 1, trace = tr @ [Log Errorf format v]\<rparr>"

text \<open>
  \<^verbatim>\<open>download\<close>. The error of \<^verbatim>\<open>os.Create\<close> is overwritten by the one of
  \<^verbatim>\<open>http.Get\<close> without being looked at, and the status of the response is not
  looked at either: the function returns the error of \<^verbatim>\<open>http.Get\<close>, or else the
  error of \<^verbatim>\<open>io.Copy\<close>. The two deferred closes run last, the body first; closing
  the nil file gives \<^verbatim>\<open>os.ErrInvalid\<close>.
\<close>

definition download :: "world \<Rightarrow> string \<Rightarrow> string \<Rightarrow> event list \<times> error option" where
  "download w url pth =
     (let out = (case os_Create w pth of None \<Rightarrow> Some pth | Some e \<Rightarrow> None);
          close_out =
            (case (case out of None \<Rightarrow> Some ErrInvalid | Some f \<Rightarrow> file_Close w f) of
               None \<Rightarrow> [FileClose out]
             | Some e \<Rightarrow>
                 [FileClose out, Log Warnf ''Failed to close file: %s, error: %s'' [File out, Err e]])
      in case http_Get w url of
           Inl err \<Rightarrow> ([OsCreate pth, HttpGet url] @ close_out, Some err)
         | Inr resp \<Rightarrow>
             (let close_body =
                    (case body_Close w url of
                       None \<Rightarrow> [BodyClose]
                     | Some e \<Rightarrow>
                         [BodyClose, Log Warnf ''Failed to close response body, error: %s'' [Err e]])
              in ([OsCreate pth, HttpGet url, IoCopy pth] @ close_body @ close_out,
                  io_Copy w out (Body resp))))"

text \<open>\<^verbatim>\<open>exportEnvironmentWithEnvman\<close>: one run of \<^verbatim>\<open>envman add --key\<close>.\<close>

definition exportEnvironmentWithEnvman :: "world \<Rightarrow> string \<Rightarrow> string \<Rightarrow> event list \<times> error option" where
  "exportEnvironmentWithEnvman w keyStr valueStr =
     ([EnvmanAdd keyStr valueStr], envman_add w keyStr valueStr)"

text \<open>
  The computation of \<^verbatim>\<open>keystorePath\<close> (lines 157-172 and 339-354): the local path made
  absolute, or the download into the scratch directory. The result is the trace of the
  block and either the arguments of the \<^verbatim>\<open>fail\<close> call or the path.
\<close>

definition keystorePath ::
  "world \<Rightarrow> ConfigsModel \<Rightarrow> string \<Rightarrow> event list \<times> (string \<times> arg list + string)" where
  "keystorePath w configs tmpDir =
     (if HasPrefix (KeystoreURL configs) ''file://'' then
        (let rawPth = TrimPrefix (KeystoreURL configs) ''file://''
         in case AbsPath w rawPth of
              Inl err \<Rightarrow> ([], Inl (''Failed to expand path (%s), error: %s'', [Str rawPth, Err err]))
            | Inr absPth \<Rightarrow> ([], Inr absPth))
      else
        (let pth = Join tmpDir ''keystore.jks''
         in case download w (KeystoreURL configs) pth of
              (evs, Some err) \<Rightarrow>
                (Log Printf ''download keystore'' [] # evs,
                 Inl (''Failed to download keystore, error: %s'', [Err err]))
            | (evs, None) \<Rightarrow> (Log Printf ''download keystore'' [] # evs, Inr pth)))"

definition androidBuildConfig :: "ConfigsModel \<Rightarrow> string \<Rightarrow> AndroidBuildConfigurationItem" where
  "androidBuildConfig configs pth =
     \<lparr>Keystore = pth,
      StorePassword = KeystorePassword configs,
      Alias = KeystoreAlias configs,
      Password = PrivateKeyPassword configs\<rparr>"

definition iosBuildConfig :: "ConfigsModel \<Rightarrow> IOSBuildConfigurationItem" where
  "iosBuildConfig configs =
     \<lparr>CodeSignIdentity_item = CodeSignIdentity configs,
      ProvisioningProfile_item = ProvisioningProfile configs,
      DevelopmentTeam_item = DevelopmentTeam configs,
      PackageType_item = PackageType configs\<rparr>"

text \<open>
  The part of \<^verbatim>\<open>main\<close> that builds \<^verbatim>\<open>buildConfig\<close> (lines 145-201 and 326-382):
  the scratch directory, then the Android block, then the iOS block. The two revisions
  differ here only in where they print an empty line, so the log lines that open each
  block are the parameters \<open>hdr_android\<close> and \<open>hdr_ios\<close>, and \<open>sep\<close> is what is printed
  between the creation of the scratch directory and the Android block. The result is the
  trace and either the arguments of the \<^verbatim>\<open>fail\<close> call or the scratch directory with
  the document.
\<close>

definition assemble ::
  "event list \<Rightarrow> event list \<Rightarrow> event list \<Rightarrow> world \<Rightarrow> ConfigsModel \<Rightarrow>
     event list \<times> (string \<times> arg list + string \<times> BuildConfiguration)" where
  "assemble sep hdr_android hdr_ios w configs =
     (let mk = TempDir ''__bitrise-cordova-build-config__''
      in case NormalizedOSTempDirPath w ''__bitrise-cordova-build-config__'' of
           Inl err \<Rightarrow> ([mk], Inl (''Failed to create tmp dir, error: %s'', [Err err]))
         | Inr tmpDir \<Rightarrow>
             (case (if KeystoreURL configs \<noteq> [] then
                      (case keystorePath w configs tmpDir of
                         (evs, Inl f) \<Rightarrow> (hdr_android @ evs, Inl f)
                       | (evs, Inr pth) \<Rightarrow>
                           (hdr_android @ evs,
                            Inr [(Configuration configs, androidBuildConfig configs pth)]))
                    else ([], Inr [])) of
                (ta, Inl f) \<Rightarrow> (mk # sep @ ta, Inl f)
              | (ta, Inr android) \<Rightarrow>
                  (let (ti, ios) =
                         (if PackageType configs \<noteq> ''none'' then
                            (hdr_ios, [(Configuration configs, iosBuildConfig configs)])
                          else ([], []))
                   in (mk # sep @ ta @ ti, Inr (tmpDir, \<lparr>Android = android, IOS = ios\<rparr>)))))"

text \<open>
  The end of \<^verbatim>\<open>main\<close> (lines 220-228 and 421-429): write \<^verbatim>\<open>build.json\<close> into the
  scratch directory, then publish its path.
\<close>

definition publish :: "world \<Rightarrow> string \<Rightarrow> string \<Rightarrow> event list \<Rightarrow> result" where
  "publish w tmpDir buildConfigBytes tr =
     (let buildConfigPth = Join tmpDir ''build.json'';
          tr1 = tr @ [WriteBytesToFile buildConfigPth buildConfigBytes]
      in case fileutil_WriteBytesToFile w buildConfigPth buildConfigBytes of
           Some err \<Rightarrow> fail tr1 ''Failed to write build.json file, error: %s'' [Err err]
         | None \<Rightarrow>
             (case exportEnvironmentWithEnvman w ''BITRISE_CORDOVA_BUILD_CONFIGURATION'' buildConfigPth of
                (evs, Some err) \<Rightarrow>
                  fail (tr1 @ evs)
                    ''Failed to export BITRISE_CORDOVA_BUILD_CONFIGURATION, error: %s'' [Err err]
              | (evs, None) \<Rightarrow>
                  \<lparr>exit_code = 0,
                   trace = tr1 @ evs @
                     [Log Donef
                        ''The build.json path is now available in the Environment Variable: BITRISE_CORDOVA_BUILD_CONFIGURATION (value: %s)''
                        [Str buildConfigPth]]\<rparr>))"

subsection \<open>The first revision\<close>

definition createConfigsModelFromEnvs :: "(string \<Rightarrow> string) \<Rightarrow> ConfigsModel" where
  "createConfigsModelFromEnvs env =
     \<lparr>Configuration = env ''configuration'',
      DevelopmentTeam = env ''development_team'',
      CodeSignIdentity = env ''code_sign_identity'',
      ProvisioningProfile = env ''provisioning_profile'',
      PackageType = env ''package_type'',
      KeystoreURL = env ''keystore_url'',
      KeystorePassword = env ''keystore_password'',
      KeystoreAlias = env ''keystore_alias'',
      PrivateKeyPassword = env ''private_key_password''\<rparr>"

text \<open>\<^verbatim>\<open>ConfigsModel.print\<close>: every input is logged as it is.\<close>

definition print_configs :: "ConfigsModel \<Rightarrow> event list" where
  "print_configs configs =
     [Log Infof ''Configs:'' [],
      Log Printf ''- Configuration: %s'' [Str (Configuration configs)],
      Log Infof ''ios signing configs:'' [],
      Log Printf ''- DevelopmentTeam: %s'' [Str (DevelopmentTeam configs)],
      Log Printf ''- CodeSignIdentity: %s'' [Str (CodeSignIdentity configs)],
      Log Printf ''- ProvisioningProfile: %s'' [Str (ProvisioningProfile configs)],
      Log Printf ''- PackageType: %s'' [Str (PackageType configs)],
      Log Infof ''android signing configs:'' [],
      Log Printf ''- KeystoreURL: %s'' [Str (KeystoreURL configs)],
      Log Printf ''- KeystorePassword: %s'' [Str (KeystorePassword configs)],
      Log Printf ''- KeystoreAlias: %s'' [Str (KeystoreAlias configs)],
      Log Printf ''- PrivateKeyPassword: %s'' [Str (PrivateKeyPassword configs)]]"

text \<open>\<^verbatim>\<open>ConfigsModel.validate\<close>.\<close>

definition validate :: "ConfigsModel \<Rightarrow> error option" where
  "validate configs =
     (case ValidateWithOptions (Configuration configs) [''release'', ''debug''] of
        Some err \<Rightarrow> Some (Wrapped ''Configuration: %s'' err)
      | None \<Rightarrow>
          (case ValidateWithOptions (PackageType configs)
                  [''none'', ''development'', ''enterprise'', ''ad-hoc'', ''app-store''] of
             Some err \<Rightarrow> Some (Wrapped ''PackageType: %s'' err)
           | None \<Rightarrow> None))"

text \<open>
  Lines 145-201: an empty line and a notice open each of the two blocks.
\<close>

definition assemble_input ::
  "world \<Rightarrow> ConfigsModel \<Rightarrow> event list \<times> (string \<times> arg list + string \<times> BuildConfiguration)" where
  "assemble_input w configs =
     assemble []
       [Println, Log Infof ''Adding android build config'' []]
       [Println, Log Infof ''Adding ios build config'' []] w configs"

text \<open>\<^verbatim>\<open>main\<close>, lines 135-229.\<close>

definition main_input :: "(string \<Rightarrow> string) \<Rightarrow> world \<Rightarrow> result" where
  "main_input enc w =
     (let configs = createConfigsModelFromEnvs (getenv w);
          t0 = Println # print_configs configs
      in case validate configs of
           Some err \<Rightarrow> fail t0 ''Issue with input: %s'' [Err err]
         | None \<Rightarrow>
             (case assemble_input w configs of
                (t1, Inl (format, v)) \<Rightarrow> fail (t0 @ t1) format v
              | (t1, Inr (tmpDir, buildConfig)) \<Rightarrow>
                  if length (Android buildConfig) = 0 \<and> length (IOS buildConfig) = 0 then
                    \<lparr>exit_code = 0,
                     trace = t0 @ t1 @
                       [Log Warnf
                          ''No ios nor android build config parameters specified, nothing to generate...''
                          []]\<rparr>
                  else
                    (let buildConfigBytes = MarshalIndent enc buildConfig
                     in publish w tmpDir buildConfigBytes
                          (t0 @ t1 @
                           [Println, Log Infof ''Generating config file'' [],
                            Log Printf ''content:'' [],
                            Log Printf buildConfigBytes []]))))"

subsection \<open>The second revision\<close>

text \<open>
  \<^verbatim>\<open>stepconf.Parse\<close> fills each field from the variable its \<^verbatim>\<open>env\<close> tag names and
  checks the constraints of the tag. The only constraint in the struct is
  \<^verbatim>\<open>required\<close> on \<^verbatim>\<open>configuration\<close>: no tag lists allowed values.
\<close>

definition stepconf_Parse :: "(string \<Rightarrow> string) \<Rightarrow> error + ConfigsModel" where
  "stepconf_Parse env =
     (if env ''configuration'' = [] then Inl (RequiredNotPresent ''Configuration'')
      else Inr
        \<lparr>Configuration = env ''configuration'',
         DevelopmentTeam = env ''development_team'',
         CodeSignIdentity = env ''code_sign_identity'',
         ProvisioningProfile = env ''provisioning_profile'',
         PackageType = env ''package_type'',
         KeystoreURL = env ''keystore_url'',
         KeystorePassword = env ''keystore_password'',
         KeystoreAlias = env ''keystore_alias'',
         PrivateKeyPassword = env ''private_key_password''\<rparr>)"

text \<open>
  The block of lines 398-419 up to the value of \<^verbatim>\<open>printableConfigBytes\<close>: a copy of
  the bytes, replaced, when the map has an entry under the configuration, by the
  serialization of the document after both non-empty passwords of that entry were
  overwritten with five asterisks. The map is updated in place, so the second component
  is \<^verbatim>\<open>buildConfig\<close> as the block leaves it.
\<close>

definition printableConfigBytes ::
  "(string \<Rightarrow> string) \<Rightarrow> ConfigsModel \<Rightarrow> BuildConfiguration \<Rightarrow> string \<Rightarrow> string \<times> BuildConfiguration" where
  "printableConfigBytes enc configs buildConfig buildConfigBytes =
     (case map_of (Android buildConfig) (Configuration configs) of
        Some config \<Rightarrow>
          (let config1 = (if Password config \<noteq> [] then config\<lparr>Password := ''*****''\<rparr> else config);
               config2 = (if StorePassword config1 \<noteq> []
                          then config1\<lparr>StorePassword := ''*****''\<rparr> else config1);
               buildConfig' =
                 buildConfig\<lparr>Android := map_assign (Configuration configs) config2 (Android buildConfig)\<rparr>
           in (MarshalIndent enc buildConfig', buildConfig'))
      | None \<Rightarrow> (buildConfigBytes, buildConfig))"

text \<open>
  Lines 326-382: one empty line after the scratch directory, a notice at each block.
\<close>

definition assemble_stepconf ::
  "world \<Rightarrow> ConfigsModel \<Rightarrow> event list \<times> (string \<times> arg list + string \<times> BuildConfiguration)" where
  "assemble_stepconf w configs =
     assemble [Println]
       [Log Infof ''Adding android build config'' []]
       [Log Infof ''Adding ios build config'' []] w configs"

text \<open>\<^verbatim>\<open>main\<close>, lines 319-430.\<close>

definition main_stepconf :: "(string \<Rightarrow> string) \<Rightarrow> world \<Rightarrow> result" where
  "main_stepconf enc w =
     (case stepconf_Parse (getenv w) of
        Inl err \<Rightarrow> fail [] (''Couldn't create config: %v'' @ [CHR 0x0A]) [Err err]
      | Inr configs \<Rightarrow>
          (let t0 = [StepconfPrint configs]
           in case assemble_stepconf w configs of
                (t1, Inl (format, v)) \<Rightarrow> fail (t0 @ t1) format v
              | (t1, Inr (tmpDir, buildConfig)) \<Rightarrow>
                  if length (Android buildConfig) = 0 \<and> length (IOS buildConfig) = 0 then
                    \<lparr>exit_code = 0,
                     trace = t0 @ t1 @
                       [Log Warnf
                          ''No ios nor android build config parameters specified, nothing to generate...''
                          []]\<rparr>
                  else
                    (let buildConfigBytes = MarshalIndent enc buildConfig;
                         printable = fst (printableConfigBytes enc configs buildConfig buildConfigBytes)
                     in publish w tmpDir buildConfigBytes
                          (t0 @ t1 @
                           [Println, Log Infof ''Generating config file'' [],
                            Log Printf ''content:'' [],
                            Log Printf printable []]))))"

subsection \<open>Reading a trace\<close>

text \<open>
  The document in the log. Lines 218 and 418 are \<^verbatim>\<open>log.Printf(string(bytes))\<close>: the
  serialized document is handed over as the format, with no operand. \<open>content_format\<close>
  is that format, the one logged right after \<^verbatim>\<open>content:\<close>. What the run shows is
  not the format but what the logging library makes of it by the rules of
  \<^verbatim>\<open>fmt.Sprintf\<close>: text without a percent sign is shown as it is, and a percent sign
  opens a verb, which for want of an operand is shown as \<^verbatim>\<open>%!d(MISSING)\<close> and the
  like. That expansion is the library's, so it is the parameter \<open>expand\<close>, from a format
  and its operands to the text shown, and \<open>content_display\<close> is the document as the
  run shows it.
\<close>

definition content_format :: "event list \<Rightarrow> string option" where
  "content_format tr =
     (case dropWhile (\<lambda>e. e \<noteq> Log Printf ''content:'' []) tr of
        m # Log Printf d [] # rest \<Rightarrow> Some d
      | _ \<Rightarrow> None)"

definition content_display :: "(string \<Rightarrow> arg list \<Rightarrow> string) \<Rightarrow> event list \<Rightarrow> string option" where
  "content_display expand tr = map_option (\<lambda>d. expand d []) (content_format tr)"

text \<open>
  The files handed to \<^verbatim>\<open>fileutil.WriteBytesToFile\<close>, the values published through
  \<^verbatim>\<open>envman\<close>, the requests sent, and the calls that create or fill something in the
  file system.
\<close>

definition written :: "event list \<Rightarrow> (string \<times> string) list" where
  "written tr = concat (map (\<lambda>e. case e of WriteBytesToFile p b \<Rightarrow> [(p, b)] | _ \<Rightarrow> []) tr)"

definition published :: "event list \<Rightarrow> (string \<times> string) list" where
  "published tr = concat (map (\<lambda>e. case e of EnvmanAdd k v \<Rightarrow> [(k, v)] | _ \<Rightarrow> []) tr)"

definition requests :: "event list \<Rightarrow> string list" where
  "requests tr = concat (map (\<lambda>e. case e of HttpGet u \<Rightarrow> [u] | _ \<Rightarrow> []) tr)"

definition created :: "event list \<Rightarrow> string list" where
  "created tr =
     concat (map (\<lambda>e. case e of TempDir p \<Rightarrow> [p] | OsCreate p \<Rightarrow> [p] | IoCopy p \<Rightarrow> [p]
                        | WriteBytesToFile p b \<Rightarrow> [p] | _ \<Rightarrow> []) tr)"

text \<open>
  A stretch of trace that hands nothing to the file writer, to \<^verbatim>\<open>envman\<close> or to the
  network and does not announce the document.
\<close>

definition quiet :: "event list \<Rightarrow> bool" where
  "quiet tr \<longleftrightarrow>
     written tr = [] \<and> published tr = [] \<and> requests tr = [] \<and>
     Log Printf ''content:'' [] \<notin> set tr"

subsection \<open>Reading a document\<close>

text \<open>
  The document \<^verbatim>\<open>main\<close> builds, as a function of the inputs and of the keystore path:
  what lines 174-200 put into \<^verbatim>\<open>buildConfig\<close>.
\<close>

definition document_for :: "ConfigsModel \<Rightarrow> string \<Rightarrow> BuildConfiguration" where
  "document_for configs pth =
     \<lparr>Android = (if KeystoreURL configs \<noteq> []
                 then [(Configuration configs, androidBuildConfig configs pth)] else []),
      IOS = (if PackageType configs \<noteq> ''none''
             then [(Configuration configs, iosBuildConfig configs)] else [])\<rparr>"

text \<open>The members of a JSON object, and whether a value holds an empty string anywhere.\<close>

fun members :: "json \<Rightarrow> (string \<times> json) list" where
  "members (JObject ms) = ms"
| "members (JString s) = []"


text \<open>What the redaction of lines 402-407 makes of a password.\<close>

definition masked :: "string \<Rightarrow> string" where
  "masked s = (if s \<noteq> [] then ''*****'' else s)"

subsection \<open>Concrete runs\<close>

text \<open>
  An environment given as a list of variables, the encoding of a string that holds
  nothing the JSON encoder escapes (letters, digits, slashes, dots), and a world in which
  every call succeeds: the scratch directory is \<^verbatim>\<open>/tmp/scratch1\<close>, the working
  directory is \<^verbatim>\<open>/work\<close>, and every request is answered with status 200.
\<close>

definition env_of :: "(string \<times> string) list \<Rightarrow> string \<Rightarrow> string" where
  "env_of kvs k = (case map_of kvs k of Some v \<Rightarrow> v | None \<Rightarrow> [])"

definition plain_string :: "string \<Rightarrow> string" where
  "plain_string s = [CHR 0x22] @ s @ [CHR 0x22]"


definition calm_world :: "(string \<times> string) list \<Rightarrow> world" where
  "calm_world kvs =
     \<lparr>getenv = env_of kvs,
      NormalizedOSTempDirPath = (\<lambda>prefix. Inr ''/tmp/scratch1''),
      AbsPath = (\<lambda>p. if p = [] then Inl (External ''No Path provided'')
                     else if hd p = CHR ''/'' then Inr (Clean p) else Inr (Join ''/work'' p)),
      os_Create = (\<lambda>p. None),
      http_Get = (\<lambda>u. Inr \<lparr>StatusCode = 200, Body = ''keystore bytes''\<rparr>),
      io_Copy = (\<lambda>f b. None),
      body_Close = (\<lambda>u. None),
      file_Close = (\<lambda>p. None),
      fileutil_WriteBytesToFile = (\<lambda>p b. None),
      envman_add = (\<lambda>k v. None)\<rparr>"

text \<open>
  Three sets of inputs: a release build signed with a local keystore, the same with a
  keystore to download, and a build with no keystore at all. In the first two the
  keystore password is the same word as the alias.
\<close>

definition local_inputs :: "(string \<times> string) list" where
  "local_inputs =
     [(''configuration'', ''release''), (''package_type'', ''development''),
      (''code_sign_identity'', ''X''), (''keystore_url'', ''file:///tmp/a.jks''),
      (''keystore_alias'', ''upload''), (''keystore_password'', ''upload''),
      (''private_key_password'', ''s3cret'')]"

definition remote_inputs :: "(string \<times> string) list" where
  "remote_inputs =
     [(''configuration'', ''release''), (''package_type'', ''none''),
      (''keystore_url'', ''https://example.com/a.jks''),
      (''keystore_alias'', ''upload''), (''keystore_password'', ''upload''),
      (''private_key_password'', ''s3cret'')]"


text \<open>The document the first set of inputs gives, and the trace of its assembly.\<close>

definition local_item :: AndroidBuildConfigurationItem where
  "local_item =
     \<lparr>Keystore = ''/tmp/a.jks'', StorePassword = ''upload'', Alias = ''upload'',
      Password = ''s3cret''\<rparr>"

definition local_document :: BuildConfiguration where
  "local_document =
     \<lparr>Android = [(''release'', local_item)],
      IOS = [(''release'',
              \<lparr>CodeSignIdentity_item = ''X'', ProvisioningProfile_item = [],
               DevelopmentTeam_item = [], PackageType_item = ''development''\<rparr>)]\<rparr>"

definition local_trace :: "event list" where
  "local_trace =
     [TempDir ''__bitrise-cordova-build-config__'',
      Println, Log Infof ''Adding android build config'' [],
      Println, Log Infof ''Adding ios build config'' []]"



text \<open>
  A local keystore given by a relative path, a local keystore with no path at all, and
  a build whose configuration is none of the allowed values and whose keystore is to be
  downloaded.
\<close>

definition relative_inputs :: "(string \<times> string) list" where
  "relative_inputs =
     [(''configuration'', ''release''), (''package_type'', ''none''),
      (''keystore_url'', ''file://a.jks'')]"

definition pathless_inputs :: "(string \<times> string) list" where
  "pathless_inputs =
     [(''configuration'', ''release''), (''package_type'', ''none''),
      (''keystore_url'', ''file://'')]"

definition staging_inputs :: "(string \<times> string) list" where
  "staging_inputs =
     [(''configuration'', ''staging''), (''package_type'', ''none''),
      (''keystore_url'', ''https://example.com/a.jks'')]"

section \<open>Properties\<close>

subsection \<open>Facts about traces\<close>

lemma readers_simps:
  "written (a @ b) = written a @ written b"
  "published (a @ b) = published a @ published b"
  "requests (a @ b) = requests a @ requests b"
  "created (a @ b) = created a @ created b"
  "written [] = []" "published [] = []" "requests [] = []" "created [] = []"
  "written (Println # a) = written a" "written (Log l f v # a) = written a"
  "written (StepconfPrint x # a) = written a"
  "written (WriteBytesToFile pth bytes # a) = (pth, bytes) # written a"
  "written (EnvmanAdd k val # a) = written a"
  "published (Println # a) = published a" "published (Log l f v # a) = published a"
  "published (StepconfPrint x # a) = published a"
  "published (WriteBytesToFile pth bytes # a) = published a"
  "published (EnvmanAdd k val # a) = (k, val) # published a"
  "requests (Println # a) = requests a" "requests (Log l f v # a) = requests a"
  "requests (StepconfPrint x # a) = requests a"
  "requests (WriteBytesToFile pth bytes # a) = requests a"
  "requests (EnvmanAdd k val # a) = requests a"
  "created (Println # a) = created a" "created (Log l f v # a) = created a"
  "created (StepconfPrint x # a) = created a"
  "written (TempDir pth # a) = written a" "published (TempDir pth # a) = published a"
  "requests (TempDir pth # a) = requests a"
  by (simp_all add: written_def published_def requests_def created_def)

lemma print_configs_quiet: "quiet (Println # print_configs c)"
  by (simp add: quiet_def print_configs_def readers_simps)

lemma content_format_found:
  assumes "Log Printf ''content:'' [] \<notin> set pre"
  shows "content_format (pre @ Log Printf ''content:'' [] # Log Printf d [] # rest) = Some d"
proof -
  have "dropWhile (\<lambda>e. e \<noteq> Log Printf ''content:'' [])
          (pre @ Log Printf ''content:'' [] # Log Printf d [] # rest) =
        Log Printf ''content:'' [] # Log Printf d [] # rest"
    using assms by (subst dropWhile_append3) auto
  then show ?thesis by (simp add: content_format_def)
qed

subsection \<open>Facts about the library functions\<close>

lemma HasPrefix_append: "HasPrefix (p @ s) p"
  by (simp add: HasPrefix_def)

lemma TrimPrefix_append: "TrimPrefix (p @ s) p = s"
  by (simp add: TrimPrefix_def HasPrefix_def)

lemma Clean_not_empty: "Clean p \<noteq> []"
  by (simp add: Clean_def Let_def)

lemma Join_not_empty: "b \<noteq> [] \<Longrightarrow> Join a b \<noteq> []"
  by (simp add: Join_def Clean_not_empty)

subsection \<open>Facts about the serialization\<close>







lemma document_for_no_keystore:
  "KeystoreURL c = [] \<Longrightarrow> document_for c k = document_for c k'"
  by (simp add: document_for_def)

lemma printable_document_for:
  "fst (printableConfigBytes enc c (document_for c k) (MarshalIndent enc (document_for c k))) =
     MarshalIndent enc
       (document_for
          (c\<lparr>KeystorePassword := masked (KeystorePassword c),
             PrivateKeyPassword := masked (PrivateKeyPassword c)\<rparr>) k)"
  by (simp add: printableConfigBytes_def document_for_def androidBuildConfig_def
      iosBuildConfig_def masked_def Let_def)

subsection \<open>Facts about the blocks\<close>

lemma validate_None_iff:
  "validate c = None \<longleftrightarrow>
     Configuration c \<in> {''release'', ''debug''} \<and>
     PackageType c \<in> {''none'', ''development'', ''enterprise'', ''ad-hoc'', ''app-store''}"
  by (auto simp: validate_def ValidateWithOptions_def split: option.splits if_splits)

lemma createConfigsModelFromEnvs_simps:
  "Configuration (createConfigsModelFromEnvs env) = env ''configuration''"
  "PackageType (createConfigsModelFromEnvs env) = env ''package_type''"
  "KeystoreURL (createConfigsModelFromEnvs env) = env ''keystore_url''"
  "KeystorePassword (createConfigsModelFromEnvs env) = env ''keystore_password''"
  "PrivateKeyPassword (createConfigsModelFromEnvs env) = env ''private_key_password''"
  "KeystoreAlias (createConfigsModelFromEnvs env) = env ''keystore_alias''"
  by (simp_all add: createConfigsModelFromEnvs_def)

lemma stepconf_Parse_Inr:
  assumes "stepconf_Parse env = Inr c"
  shows "c = createConfigsModelFromEnvs env" and "env ''configuration'' \<noteq> []"
  using assms
  by (auto simp: stepconf_Parse_def createConfigsModelFromEnvs_def split: if_splits)

lemma download_result:
  "snd (download w url pth) =
     (case http_Get w url of
        Inl e \<Rightarrow> Some e
      | Inr resp \<Rightarrow>
          io_Copy w (case os_Create w pth of None \<Rightarrow> Some pth | Some e \<Rightarrow> None) (Body resp))"
  by (simp add: download_def Let_def split: sum.splits option.splits)

lemma download_trace:
  "written (fst (download w u p)) = []"
  "published (fst (download w u p)) = []"
  "requests (fst (download w u p)) = [u]"
  "Log Printf ''content:'' [] \<notin> set (fst (download w u p))"
  by (auto simp: download_def written_def published_def requests_def Let_def
           split: sum.splits option.splits)

lemma download_getenv: "download (w\<lparr>getenv := g\<rparr>) u p = download w u p"
  by (simp add: download_def Let_def
      cong del: option.case_cong_weak sum.case_cong_weak)

lemma keystorePath_Inr:
  assumes "keystorePath w c tmpDir = (evs, Inr k)"
  shows "(HasPrefix (KeystoreURL c) ''file://'' \<and> evs = [] \<and>
            AbsPath w (TrimPrefix (KeystoreURL c) ''file://'') = Inr k) \<or>
         (\<not> HasPrefix (KeystoreURL c) ''file://'' \<and> k = Join tmpDir ''keystore.jks'' \<and>
            snd (download w (KeystoreURL c) (Join tmpDir ''keystore.jks'')) = None)"
  using assms
  by (auto simp: keystorePath_def Let_def split: if_splits sum.splits prod.splits option.splits)

lemma keystorePath_remote:
  assumes "\<not> HasPrefix (KeystoreURL c) ''file://''"
  shows "snd (keystorePath w c d) =
     (case snd (download w (KeystoreURL c) (Join d ''keystore.jks'')) of
        Some e \<Rightarrow> Inl (''Failed to download keystore, error: %s'', [Err e])
      | None \<Rightarrow> Inr (Join d ''keystore.jks''))"
  using assms
  by (simp add: keystorePath_def Let_def split: prod.splits option.splits)

lemma keystorePath_trace:
  "written (fst (keystorePath w c d)) = []"
  "published (fst (keystorePath w c d)) = []"
  "requests (fst (keystorePath w c d)) =
     (if HasPrefix (KeystoreURL c) ''file://'' then [] else [KeystoreURL c])"
  "Log Printf ''content:'' [] \<notin> set (fst (keystorePath w c d))"
  using download_trace [of w "KeystoreURL c" "Join d ''keystore.jks''"]
  by (auto simp: keystorePath_def written_def published_def requests_def Let_def
           split: sum.splits option.splits prod.splits)

lemma keystorePath_getenv:
  assumes "KeystoreURL c' = KeystoreURL c"
  shows "keystorePath (w\<lparr>getenv := g\<rparr>) c' d = keystorePath w c d"
  using assms by (simp add: keystorePath_def download_getenv)

lemma assemble_Inr:
  assumes "assemble sep ha hi w c = (tr, Inr (tmpDir, bc))"
  shows "NormalizedOSTempDirPath w ''__bitrise-cordova-build-config__'' = Inr tmpDir \<and>
         (\<exists>evs k. (KeystoreURL c \<noteq> [] \<longrightarrow> keystorePath w c tmpDir = (evs, Inr k)) \<and>
                  bc = document_for c k)"
  using assms
  by (auto simp: assemble_def document_for_def Let_def split: if_splits sum.splits prod.splits)

lemma assemble_nothing:
  assumes "KeystoreURL c = []" "PackageType c = ''none''"
  shows "snd (assemble sep ha hi w c) =
     (case NormalizedOSTempDirPath w ''__bitrise-cordova-build-config__'' of
        Inl e \<Rightarrow> Inl (''Failed to create tmp dir, error: %s'', [Err e])
      | Inr d \<Rightarrow> Inr (d, \<lparr>Android = [], IOS = []\<rparr>))"
  using assms by (simp add: assemble_def Let_def split: sum.splits)

lemma assemble_download_failed:
  assumes "NormalizedOSTempDirPath w ''__bitrise-cordova-build-config__'' = Inr d"
    and "KeystoreURL c \<noteq> []" and "\<not> HasPrefix (KeystoreURL c) ''file://''"
    and "snd (download w (KeystoreURL c) (Join d ''keystore.jks'')) = Some e"
  shows "snd (assemble sep ha hi w c) = Inl (''Failed to download keystore, error: %s'', [Err e])"
  using assms keystorePath_remote [OF assms(3), of w d]
  by (auto simp: assemble_def Let_def split: sum.splits prod.splits)

lemma assemble_download_ok:
  assumes "NormalizedOSTempDirPath w ''__bitrise-cordova-build-config__'' = Inr d"
    and "KeystoreURL c \<noteq> []" and "\<not> HasPrefix (KeystoreURL c) ''file://''"
    and "snd (download w (KeystoreURL c) (Join d ''keystore.jks'')) = None"
  shows "snd (assemble sep ha hi w c) = Inr (d, document_for c (Join d ''keystore.jks''))"
  using assms keystorePath_remote [OF assms(3), of w d]
  by (auto simp: assemble_def document_for_def Let_def split: sum.splits prod.splits)

lemma assemble_document:
  "snd (assemble sep ha hi w c) = snd (assemble sep' ha' hi' w c)"
  by (simp add: assemble_def Let_def split: sum.splits prod.splits)

lemma assemble_stepconf_document:
  "snd (assemble_stepconf w c) = snd (assemble_input w c)"
  unfolding assemble_stepconf_def assemble_input_def by (rule assemble_document)

lemma assemble_trace:
  assumes "quiet sep" "quiet ha" "quiet hi"
  shows "written (fst (assemble sep ha hi w c)) = []"
    and "published (fst (assemble sep ha hi w c)) = []"
    and "Log Printf ''content:'' [] \<notin> set (fst (assemble sep ha hi w c))"
    and "requests (fst (assemble sep ha hi w c)) =
      (case NormalizedOSTempDirPath w ''__bitrise-cordova-build-config__'' of
         Inl e \<Rightarrow> []
       | Inr d \<Rightarrow> if KeystoreURL c \<noteq> [] \<and> \<not> HasPrefix (KeystoreURL c) ''file://''
                  then [KeystoreURL c] else [])"
proof -
  have k: "written (fst (keystorePath w c d)) = []"
    "published (fst (keystorePath w c d)) = []"
    "requests (fst (keystorePath w c d)) =
     (if HasPrefix (KeystoreURL c) ''file://'' then [] else [KeystoreURL c])"
    "Log Printf ''content:'' [] \<notin> set (fst (keystorePath w c d))" for d
    by (rule keystorePath_trace)+
  show "written (fst (assemble sep ha hi w c)) = []"
    using assms k(1)
    by (auto simp: assemble_def quiet_def Let_def readers_simps split: sum.splits prod.splits)
       (metis fst_conv)+
  show "published (fst (assemble sep ha hi w c)) = []"
    using assms k(2)
    by (auto simp: assemble_def quiet_def Let_def readers_simps split: sum.splits prod.splits)
       (metis fst_conv)+
  show "Log Printf ''content:'' [] \<notin> set (fst (assemble sep ha hi w c))"
    using assms k(4)
    by (auto simp: assemble_def quiet_def Let_def split: sum.splits prod.splits if_splits)
       (metis fst_conv)+
  show "requests (fst (assemble sep ha hi w c)) =
      (case NormalizedOSTempDirPath w ''__bitrise-cordova-build-config__'' of
         Inl e \<Rightarrow> []
       | Inr d \<Rightarrow> if KeystoreURL c \<noteq> [] \<and> \<not> HasPrefix (KeystoreURL c) ''file://''
                  then [KeystoreURL c] else [])"
    using assms k(3)
    by (auto simp: assemble_def quiet_def Let_def readers_simps split: sum.splits prod.splits)
       (metis fst_conv)+
qed

lemma assemble_input_trace:
  "written (fst (assemble_input w c)) = []"
  "published (fst (assemble_input w c)) = []"
  "Log Printf ''content:'' [] \<notin> set (fst (assemble_input w c))"
  "requests (fst (assemble_input w c)) =
      (case NormalizedOSTempDirPath w ''__bitrise-cordova-build-config__'' of
         Inl e \<Rightarrow> []
       | Inr d \<Rightarrow> if KeystoreURL c \<noteq> [] \<and> \<not> HasPrefix (KeystoreURL c) ''file://''
                  then [KeystoreURL c] else [])"
  unfolding assemble_input_def
  by (rule assemble_trace; simp add: quiet_def readers_simps)+

lemma assemble_stepconf_trace:
  "written (fst (assemble_stepconf w c)) = []"
  "published (fst (assemble_stepconf w c)) = []"
  "Log Printf ''content:'' [] \<notin> set (fst (assemble_stepconf w c))"
  "requests (fst (assemble_stepconf w c)) =
      (case NormalizedOSTempDirPath w ''__bitrise-cordova-build-config__'' of
         Inl e \<Rightarrow> []
       | Inr d \<Rightarrow> if KeystoreURL c \<noteq> [] \<and> \<not> HasPrefix (KeystoreURL c) ''file://''
                  then [KeystoreURL c] else [])"
  unfolding assemble_stepconf_def
  by (rule assemble_trace; simp add: quiet_def readers_simps)+

lemma publish_trace:
  "written (trace (publish w d b tr)) = written tr @ [(Join d ''build.json'', b)]"
  "requests (trace (publish w d b tr)) = requests tr"
  "published (trace (publish w d b tr)) =
     published tr @ (case fileutil_WriteBytesToFile w (Join d ''build.json'') b of
                       Some e \<Rightarrow> []
                     | None \<Rightarrow> [(''BITRISE_CORDOVA_BUILD_CONFIGURATION'', Join d ''build.json'')])"
  "exit_code (publish w d b tr) =
     (if fileutil_WriteBytesToFile w (Join d ''build.json'') b = None \<and>
         envman_add w ''BITRISE_CORDOVA_BUILD_CONFIGURATION'' (Join d ''build.json'') = None
      then 0 else 1)"
  by (auto simp: publish_def fail_def exportEnvironmentWithEnvman_def Let_def readers_simps
           split: option.splits)

lemma publish_trace_append:
  "trace (publish w d b tr) = tr @ trace (publish w d b [])"
  by (simp add: publish_def fail_def exportEnvironmentWithEnvman_def Let_def
      split: option.splits)

subsection \<open>Facts about the first revision\<close>

lemma main_input_written:
  "written (trace (main_input enc w)) =
     (case validate (createConfigsModelFromEnvs (getenv w)) of
        Some e \<Rightarrow> []
      | None \<Rightarrow>
          (case snd (assemble_input w (createConfigsModelFromEnvs (getenv w))) of
             Inl f \<Rightarrow> []
           | Inr (d, bc) \<Rightarrow>
               if Android bc = [] \<and> IOS bc = [] then []
               else [(Join d ''build.json'', MarshalIndent enc bc)]))"
  using assemble_input_trace(1) [of w "createConfigsModelFromEnvs (getenv w)"]
    print_configs_quiet [of "createConfigsModelFromEnvs (getenv w)"]
  by (auto simp: main_input_def fail_def Let_def readers_simps publish_trace quiet_def
           split: option.splits sum.splits prod.splits)

lemma main_input_published:
  "published (trace (main_input enc w)) =
     (case validate (createConfigsModelFromEnvs (getenv w)) of
        Some e \<Rightarrow> []
      | None \<Rightarrow>
          (case snd (assemble_input w (createConfigsModelFromEnvs (getenv w))) of
             Inl f \<Rightarrow> []
           | Inr (d, bc) \<Rightarrow>
               if Android bc = [] \<and> IOS bc = [] then []
               else (case fileutil_WriteBytesToFile w (Join d ''build.json'') (MarshalIndent enc bc) of
                       Some e \<Rightarrow> []
                     | None \<Rightarrow> [(''BITRISE_CORDOVA_BUILD_CONFIGURATION'', Join d ''build.json'')])))"
  using assemble_input_trace(2) [of w "createConfigsModelFromEnvs (getenv w)"]
    print_configs_quiet [of "createConfigsModelFromEnvs (getenv w)"]
  by (auto simp: main_input_def fail_def Let_def readers_simps publish_trace quiet_def
           split: option.splits sum.splits prod.splits)

lemma main_input_requests:
  "requests (trace (main_input enc w)) =
     (case validate (createConfigsModelFromEnvs (getenv w)) of
        Some e \<Rightarrow> []
      | None \<Rightarrow> requests (fst (assemble_input w (createConfigsModelFromEnvs (getenv w)))))"
  using print_configs_quiet [of "createConfigsModelFromEnvs (getenv w)"]
  by (auto simp: main_input_def fail_def Let_def readers_simps publish_trace quiet_def
           split: option.splits sum.splits prod.splits)

lemma main_input_exit_code:
  "exit_code (main_input enc w) =
     (case validate (createConfigsModelFromEnvs (getenv w)) of
        Some e \<Rightarrow> 1
      | None \<Rightarrow>
          (case snd (assemble_input w (createConfigsModelFromEnvs (getenv w))) of
             Inl f \<Rightarrow> 1
           | Inr (d, bc) \<Rightarrow>
               if Android bc = [] \<and> IOS bc = [] then 0
               else if fileutil_WriteBytesToFile w (Join d ''build.json'') (MarshalIndent enc bc) = None \<and>
                       envman_add w ''BITRISE_CORDOVA_BUILD_CONFIGURATION'' (Join d ''build.json'') = None
                    then 0 else 1))"
  by (auto simp: main_input_def fail_def Let_def publish_trace
           split: option.splits sum.splits prod.splits)

lemma main_input_rejected:
  assumes "validate (createConfigsModelFromEnvs (getenv w)) = Some e"
  shows "main_input enc w =
           \<lparr>exit_code = 1,
            trace = Println # print_configs (createConfigsModelFromEnvs (getenv w)) @
                    [Log Errorf ''Issue with input: %s'' [Err e]]\<rparr>"
  using assms by (simp add: main_input_def fail_def Let_def)

lemma main_input_failed:
  assumes "validate (createConfigsModelFromEnvs (getenv w)) = None"
    and "snd (assemble_input w (createConfigsModelFromEnvs (getenv w))) = Inl (format, v)"
  shows "main_input enc w =
           fail (Println # print_configs (createConfigsModelFromEnvs (getenv w)) @
                 fst (assemble_input w (createConfigsModelFromEnvs (getenv w)))) format v"
  using assms
  by (cases "assemble_input w (createConfigsModelFromEnvs (getenv w))")
     (simp add: main_input_def Let_def)

lemma main_input_written_cases:
  assumes "written (trace (main_input enc w)) = [(p, b)]"
  shows "\<exists>tr d k. validate (createConfigsModelFromEnvs (getenv w)) = None \<and>
           assemble_input w (createConfigsModelFromEnvs (getenv w)) =
             (tr, Inr (d, document_for (createConfigsModelFromEnvs (getenv w)) k)) \<and>
           p = Join d ''build.json'' \<and>
           b = MarshalIndent enc (document_for (createConfigsModelFromEnvs (getenv w)) k)"
proof -
  let ?c = "createConfigsModelFromEnvs (getenv w)"
  from assms have v: "validate ?c = None"
    by (auto simp: main_input_written split: option.splits)
  obtain tr r where a: "assemble_input w ?c = (tr, r)" by (cases "assemble_input w ?c")
  with assms v obtain d bc where r: "r = Inr (d, bc)"
    and pb: "p = Join d ''build.json''" "b = MarshalIndent enc bc"
    by (auto simp: main_input_written split: sum.splits if_splits)
  from a r assemble_Inr [of "[]" _ _ w ?c tr d bc] obtain k where "bc = document_for ?c k"
    unfolding assemble_input_def by blast
  with v a r pb show ?thesis by blast
qed

lemma main_input_content_format:
  assumes "written (trace (main_input enc w)) = [(p, b)]"
  shows "content_format (trace (main_input enc w)) = Some b"
proof -
  let ?c = "createConfigsModelFromEnvs (getenv w)"
  from main_input_written_cases [OF assms] obtain t1 d k
    where v: "validate ?c = None"
      and a: "assemble_input w ?c = (t1, Inr (d, document_for ?c k))"
      and b: "b = MarshalIndent enc (document_for ?c k)"
    by blast
  have ne: "\<not> (Android (document_for ?c k) = [] \<and> IOS (document_for ?c k) = [])"
    using assms v a by (auto simp: main_input_written)
  have n: "Log Printf ''content:'' [] \<notin> set t1"
    using assemble_input_trace(3) [of w ?c] a by simp
  have tr: "trace (main_input enc w) =
          (Println # print_configs ?c @ t1 @ [Println, Log Infof ''Generating config file'' []]) @
          Log Printf ''content:'' [] # Log Printf b [] #
          trace (publish w d b [])"
    using v a ne b
    by (simp add: main_input_def Let_def publish_trace_append [where tr = "_ # _"])
  have nn: "Log Printf ''content:'' []
      \<notin> set (Println # print_configs ?c @ t1 @ [Println, Log Infof ''Generating config file'' []])"
    using n by (simp add: print_configs_def)
  show ?thesis
    unfolding tr by (rule content_format_found [OF nn])
qed

text \<open>
  The first revision has no masking: the format it logs is, byte for byte, the file it
  writes, and what it shows is the expansion of that.
\<close>

lemma first_revision_logs_what_it_writes:
  assumes "written (trace (main_input enc w)) = [(p, b)]"
  shows "content_display expand (trace (main_input enc w)) = Some (expand b [])"
  using main_input_content_format [OF assms] by (simp add: content_display_def)

subsection \<open>Facts about the second revision\<close>

lemma main_stepconf_written:
  "written (trace (main_stepconf enc w)) =
     (case stepconf_Parse (getenv w) of
        Inl e \<Rightarrow> []
      | Inr c \<Rightarrow>
          (case snd (assemble_stepconf w c) of
             Inl f \<Rightarrow> []
           | Inr (d, bc) \<Rightarrow>
               if Android bc = [] \<and> IOS bc = [] then []
               else [(Join d ''build.json'', MarshalIndent enc bc)]))"
proof (cases "stepconf_Parse (getenv w)")
  case (Inl e)
  then show ?thesis by (simp add: main_stepconf_def fail_def readers_simps)
next
  case (Inr c)
  with assemble_stepconf_trace(1) [of w c] show ?thesis
    by (auto simp: main_stepconf_def fail_def Let_def readers_simps publish_trace
             split: option.splits sum.splits prod.splits)
qed

lemma main_stepconf_published:
  "published (trace (main_stepconf enc w)) =
     (case stepconf_Parse (getenv w) of
        Inl e \<Rightarrow> []
      | Inr c \<Rightarrow>
          (case snd (assemble_stepconf w c) of
             Inl f \<Rightarrow> []
           | Inr (d, bc) \<Rightarrow>
               if Android bc = [] \<and> IOS bc = [] then []
               else (case fileutil_WriteBytesToFile w (Join d ''build.json'') (MarshalIndent enc bc) of
                       Some e \<Rightarrow> []
                     | None \<Rightarrow> [(''BITRISE_CORDOVA_BUILD_CONFIGURATION'', Join d ''build.json'')])))"
proof (cases "stepconf_Parse (getenv w)")
  case (Inl e)
  then show ?thesis by (simp add: main_stepconf_def fail_def readers_simps)
next
  case (Inr c)
  with assemble_stepconf_trace(2) [of w c] show ?thesis
    by (auto simp: main_stepconf_def fail_def Let_def readers_simps publish_trace
             split: option.splits sum.splits prod.splits)
qed

lemma main_stepconf_requests:
  "requests (trace (main_stepconf enc w)) =
     (case stepconf_Parse (getenv w) of
        Inl e \<Rightarrow> []
      | Inr c \<Rightarrow> requests (fst (assemble_stepconf w c)))"
  by (auto simp: main_stepconf_def fail_def Let_def readers_simps publish_trace
           split: option.splits sum.splits prod.splits)

lemma main_stepconf_exit_code:
  "exit_code (main_stepconf enc w) =
     (case stepconf_Parse (getenv w) of
        Inl e \<Rightarrow> 1
      | Inr c \<Rightarrow>
          (case snd (assemble_stepconf w c) of
             Inl f \<Rightarrow> 1
           | Inr (d, bc) \<Rightarrow>
               if Android bc = [] \<and> IOS bc = [] then 0
               else if fileutil_WriteBytesToFile w (Join d ''build.json'') (MarshalIndent enc bc) = None \<and>
                       envman_add w ''BITRISE_CORDOVA_BUILD_CONFIGURATION'' (Join d ''build.json'') = None
                    then 0 else 1))"
  by (auto simp: main_stepconf_def fail_def Let_def publish_trace
           split: option.splits sum.splits prod.splits)

lemma main_stepconf_display:
  assumes "stepconf_Parse (getenv w) = Inr c"
    and "snd (assemble_stepconf w c) = Inr (d, bc)"
    and "\<not> (Android bc = [] \<and> IOS bc = [])"
  shows "content_format (trace (main_stepconf enc w)) =
           Some (fst (printableConfigBytes enc c bc (MarshalIndent enc bc)))"
proof -
  obtain t1 where a: "assemble_stepconf w c = (t1, Inr (d, bc))"
    using assms(2) by (cases "assemble_stepconf w c") simp
  have n: "Log Printf ''content:'' [] \<notin> set t1"
    using assemble_stepconf_trace(3) [of w c] a by simp
  have tr: "trace (main_stepconf enc w) =
          ([StepconfPrint c] @ t1 @ [Println, Log Infof ''Generating config file'' []]) @
          Log Printf ''content:'' [] #
          Log Printf (fst (printableConfigBytes enc c bc (MarshalIndent enc bc))) [] #
          trace (publish w d (MarshalIndent enc bc) [])"
    using assms(1,3) a
    by (simp add: main_stepconf_def Let_def publish_trace_append [where tr = "_ # _"])
  have nn: "Log Printf ''content:'' []
      \<notin> set ([StepconfPrint c] @ t1 @ [Println, Log Infof ''Generating config file'' []])"
    using n by simp
  show ?thesis
    unfolding tr by (rule content_format_found [OF nn])
qed

lemma main_stepconf_display_all:
  "content_format (trace (main_stepconf enc w)) =
     (case stepconf_Parse (getenv w) of
        Inl e \<Rightarrow> None
      | Inr c \<Rightarrow>
          (case snd (assemble_stepconf w c) of
             Inl f \<Rightarrow> None
           | Inr (d, bc) \<Rightarrow>
               if Android bc = [] \<and> IOS bc = [] then None
               else Some (fst (printableConfigBytes enc c bc (MarshalIndent enc bc)))))"
proof (cases "stepconf_Parse (getenv w)")
  case (Inl e)
  then show ?thesis
    by (simp add: main_stepconf_def fail_def content_format_def)
next
  case (Inr c)
  obtain t1 r where a: "assemble_stepconf w c = (t1, r)" by (cases "assemble_stepconf w c")
  have n: "Log Printf ''content:'' [] \<notin> set t1"
    using assemble_stepconf_trace(3) [of w c] a by simp
  have none: "content_format (StepconfPrint c # t1 @ [e]) = None"
    if "e \<noteq> Log Printf ''content:'' []" for e
  proof -
    have "dropWhile (\<lambda>e. e \<noteq> Log Printf ''content:'' []) (StepconfPrint c # t1 @ [e]) = []"
      using n that by (simp add: dropWhile_eq_Nil_conv) blast
    then show ?thesis by (simp add: content_format_def)
  qed
  show ?thesis
  proof (cases r)
    case (Inl f)
    with Inr a none show ?thesis
      by (cases f) (simp add: main_stepconf_def fail_def Let_def)
  next
    case r: (Inr x)
    obtain d bc where x: "x = (d, bc)" by (cases x)
    show ?thesis
    proof (cases "Android bc = [] \<and> IOS bc = []")
      case True
      with Inr a r x none show ?thesis
        by (simp add: main_stepconf_def Let_def)
    next
      case False
      from Inr a r x have "snd (assemble_stepconf w c) = Inr (d, bc)" by simp
      from main_stepconf_display [OF Inr this False, of enc] Inr a r x False
      show ?thesis by simp
    qed
  qed
qed



lemma format_does_not_depend_on_the_passwords:
  assumes same: "\<forall>x. x \<noteq> ''keystore_password'' \<and> x \<noteq> ''private_key_password'' \<longrightarrow>
                   g x = getenv w x"
    and kp: "g ''keystore_password'' = [] \<longleftrightarrow> getenv w ''keystore_password'' = []"
    and pk: "g ''private_key_password'' = [] \<longleftrightarrow> getenv w ''private_key_password'' = []"
  shows "content_format (trace (main_stepconf enc (w\<lparr>getenv := g\<rparr>))) =
         content_format (trace (main_stepconf enc w))"
proof -
  let ?c = "createConfigsModelFromEnvs (getenv w)"
  let ?c' = "createConfigsModelFromEnvs g"
  let ?w' = "w\<lparr>getenv := g\<rparr>"
  have conf: "g ''configuration'' = getenv w ''configuration''" using same by simp
  have m: "?c'\<lparr>KeystorePassword := masked (KeystorePassword ?c'),
               PrivateKeyPassword := masked (PrivateKeyPassword ?c')\<rparr> =
           ?c\<lparr>KeystorePassword := masked (KeystorePassword ?c),
               PrivateKeyPassword := masked (PrivateKeyPassword ?c)\<rparr>"
    using same kp pk by (simp add: createConfigsModelFromEnvs_def masked_def)
  have fields: "KeystoreURL ?c' = KeystoreURL ?c" "PackageType ?c' = PackageType ?c"
    using same by (simp_all add: createConfigsModelFromEnvs_def)
  show ?thesis
  proof (cases "getenv w ''configuration'' = []")
    case True
    with conf show ?thesis
      by (simp add: main_stepconf_display_all stepconf_Parse_def)
  next
    case False
    then have p: "stepconf_Parse (getenv w) = Inr ?c" "stepconf_Parse (getenv ?w') = Inr ?c'"
      using conf by (simp_all add: stepconf_Parse_def createConfigsModelFromEnvs_def)
    show ?thesis
    proof (cases "NormalizedOSTempDirPath w ''__bitrise-cordova-build-config__''")
      case (Inl e)
      then show ?thesis
        using p by (simp add: main_stepconf_display_all assemble_stepconf_def assemble_def)
    next
      case (Inr d)
      have kpth: "keystorePath ?w' ?c' d = keystorePath w ?c d"
        using fields(1) by (rule keystorePath_getenv)
      obtain evs r where k: "keystorePath w ?c d = (evs, r)" by (cases "keystorePath w ?c d")
      show ?thesis
      proof (cases "KeystoreURL ?c \<noteq> [] \<and> isl r")
        case True
        then obtain f where "r = Inl f" by (cases r) auto
        with True Inr k kpth fields p show ?thesis
          by (simp add: main_stepconf_display_all assemble_stepconf_def assemble_def)
      next
        case False
        define kk where "kk = (case r of Inr x \<Rightarrow> x | Inl f \<Rightarrow> [])"
        have a: "snd (assemble_stepconf w ?c) = Inr (d, document_for ?c kk)"
          using False Inr k
          by (cases r) (auto simp: assemble_stepconf_def assemble_def document_for_def kk_def)
        have a': "snd (assemble_stepconf ?w' ?c') = Inr (d, document_for ?c' kk)"
          using False Inr k kpth fields
          by (cases r) (auto simp: assemble_stepconf_def assemble_def document_for_def kk_def)
        have e: "(Android (document_for ?c' kk) = [] \<and> IOS (document_for ?c' kk) = []) \<longleftrightarrow>
                 (Android (document_for ?c kk) = [] \<and> IOS (document_for ?c kk) = [])"
          using fields by (simp add: document_for_def)
        show ?thesis
          using p a a' e m
          by (simp add: main_stepconf_display_all printable_document_for)
      qed
    qed
  qed
qed

text \<open>
  The second revision: two runs that differ only in what the non-empty passwords are
  show the same document.
\<close>

lemma log_does_not_depend_on_the_passwords:
  assumes "\<forall>x. x \<noteq> ''keystore_password'' \<and> x \<noteq> ''private_key_password'' \<longrightarrow>
             g x = getenv w x"
    and "g ''keystore_password'' = [] \<longleftrightarrow> getenv w ''keystore_password'' = []"
    and "g ''private_key_password'' = [] \<longleftrightarrow> getenv w ''private_key_password'' = []"
  shows "content_display expand (trace (main_stepconf enc (w\<lparr>getenv := g\<rparr>))) =
         content_display expand (trace (main_stepconf enc w))"
  using format_does_not_depend_on_the_passwords [OF assms, of enc]
  by (simp add: content_display_def)

subsection \<open>Facts about the concrete runs\<close>

lemma calm_world_simps:
  "getenv (calm_world kvs) = env_of kvs"
  "NormalizedOSTempDirPath (calm_world kvs) p = Inr ''/tmp/scratch1''"
  "os_Create (calm_world kvs) p = None"
  "http_Get (calm_world kvs) u = Inr \<lparr>StatusCode = 200, Body = ''keystore bytes''\<rparr>"
  "io_Copy (calm_world kvs) f b = None"
  "body_Close (calm_world kvs) u = None"
  "file_Close (calm_world kvs) p = None"
  "fileutil_WriteBytesToFile (calm_world kvs) p b = None"
  "envman_add (calm_world kvs) k v = None"
  by (simp_all add: calm_world_def)

lemma Join_scratch1:
  "Join ''/tmp/scratch1'' ''build.json'' = ''/tmp/scratch1/build.json''"
  "Join ''/tmp/scratch1'' ''keystore.jks'' = ''/tmp/scratch1/keystore.jks''"
  by (simp_all add: Join_def Clean_def)

lemma Join_scratch2:
  "Join ''/tmp/scratch2'' ''build.json'' = ''/tmp/scratch2/build.json''"
  "Join ''/tmp/scratch2'' ''keystore.jks'' = ''/tmp/scratch2/keystore.jks''"
  by (simp_all add: Join_def Clean_def)

lemma calm_AbsPath_tmp_a: "AbsPath (calm_world kvs) ''/tmp/a.jks'' = Inr ''/tmp/a.jks''"
  by (simp add: calm_world_def Clean_def)

lemma calm_AbsPath_not_empty: "\<forall>p r. AbsPath (calm_world kvs) p = Inr r \<longrightarrow> r \<noteq> []"
  by (auto simp: calm_world_def Clean_not_empty Join_def split: if_splits)

lemma local_configs:
  "createConfigsModelFromEnvs (getenv (calm_world local_inputs)) =
     \<lparr>Configuration = ''release'', DevelopmentTeam = [], CodeSignIdentity = ''X'',
      ProvisioningProfile = [], PackageType = ''development'',
      KeystoreURL = ''file:///tmp/a.jks'', KeystorePassword = ''upload'',
      KeystoreAlias = ''upload'', PrivateKeyPassword = ''s3cret''\<rparr>"
  by (simp add: createConfigsModelFromEnvs_def calm_world_simps env_of_def local_inputs_def)

lemma local_validate:
  "validate (createConfigsModelFromEnvs (getenv (calm_world local_inputs))) = None"
  unfolding local_configs by (simp add: validate_def ValidateWithOptions_def)


lemma local_assemble:
  "assemble []
     [Println, Log Infof ''Adding android build config'' []]
     [Println, Log Infof ''Adding ios build config'' []]
     (calm_world local_inputs)
     (createConfigsModelFromEnvs (getenv (calm_world local_inputs))) =
     (local_trace, Inr (''/tmp/scratch1'', local_document))"
  unfolding local_configs
  by (simp add: assemble_def keystorePath_def HasPrefix_def TrimPrefix_def
      calm_world_simps calm_AbsPath_tmp_a androidBuildConfig_def iosBuildConfig_def
      local_trace_def local_document_def local_item_def)

lemma local_written:
  "written (trace (main_input enc (calm_world local_inputs))) =
     [(''/tmp/scratch1/build.json'', MarshalIndent enc local_document)]"
  using local_assemble
  by (simp add: main_input_written local_validate assemble_input_def Join_scratch1
      local_document_def)

lemma local_written_scratch2:
  "written (trace (main_input enc
     ((calm_world local_inputs)\<lparr>NormalizedOSTempDirPath := \<lambda>p. Inr ''/tmp/scratch2''\<rparr>))) =
     [(''/tmp/scratch2/build.json'', MarshalIndent enc local_document)]"
proof -
  let ?w = "(calm_world local_inputs)\<lparr>NormalizedOSTempDirPath := \<lambda>p. Inr ''/tmp/scratch2''\<rparr>"
  have g: "getenv ?w = getenv (calm_world local_inputs)" by simp
  have a: "snd (assemble_input ?w (createConfigsModelFromEnvs (getenv ?w))) =
             Inr (''/tmp/scratch2'', local_document)"
    unfolding g local_configs
    by (simp add: assemble_input_def assemble_def keystorePath_def HasPrefix_def TrimPrefix_def
      calm_world_def Clean_def androidBuildConfig_def iosBuildConfig_def
      local_document_def local_item_def)
  show ?thesis
    using a local_validate
    by (simp add: main_input_written Join_scratch2 local_document_def)
qed



lemma remote_configs:
  "createConfigsModelFromEnvs (env_of remote_inputs) =
     \<lparr>Configuration = ''release'', DevelopmentTeam = [], CodeSignIdentity = [],
      ProvisioningProfile = [], PackageType = ''none'',
      KeystoreURL = ''https://example.com/a.jks'', KeystorePassword = ''upload'',
      KeystoreAlias = ''upload'', PrivateKeyPassword = ''s3cret''\<rparr>"
  by (simp add: createConfigsModelFromEnvs_def env_of_def remote_inputs_def)

lemma remote_validate: "validate (createConfigsModelFromEnvs (env_of remote_inputs)) = None"
  unfolding remote_configs by (simp add: validate_def ValidateWithOptions_def)

lemma remote_not_local:
  "\<not> HasPrefix (KeystoreURL (createConfigsModelFromEnvs (env_of remote_inputs))) ''file://''"
  unfolding remote_configs by (simp add: HasPrefix_def)

lemma remote_written:
  assumes "getenv w = env_of remote_inputs"
    and "NormalizedOSTempDirPath w ''__bitrise-cordova-build-config__'' = Inr d"
    and "snd (download w ''https://example.com/a.jks'' (Join d ''keystore.jks'')) = None"
  shows "written (trace (main_input enc w)) =
           [(Join d ''build.json'',
             MarshalIndent enc
               (document_for (createConfigsModelFromEnvs (env_of remote_inputs))
                  (Join d ''keystore.jks'')))]"
proof -
  let ?c = "createConfigsModelFromEnvs (env_of remote_inputs)"
  have url: "KeystoreURL ?c = ''https://example.com/a.jks''"
    by (simp add: remote_configs)
  have "snd (assemble_input w ?c) = Inr (d, document_for ?c (Join d ''keystore.jks''))"
    unfolding assemble_input_def
    using assms(2,3) remote_not_local by (intro assemble_download_ok) (simp_all add: url)
  then show ?thesis
    using remote_validate url
    by (simp add: main_input_written assms(1) document_for_def)
qed



subsection \<open>C1: the passwords in the log and in the file\<close>




subsection \<open>C2: a failed download\<close>

text \<open>
  Claim C2, as amended. In a run that has passed \<^verbatim>\<open>validate\<close>, has its scratch
  directory and has a \<^verbatim>\<open>keystore_url\<close> that is not empty and does not start with
  \<^verbatim>\<open>file://\<close>, exactly one request is sent, whatever happens. \<^verbatim>\<open>download\<close>
  returns the error of \<^verbatim>\<open>http.Get\<close> if there is one, and otherwise the error of
  copying the body to the file if there is one; the status of the response plays no
  part. Whenever it returns an error the run ends at once with status 1 and the line
  \<^verbatim>\<open>Failed to download keystore\<close>, with nothing written and nothing published; when
  it returns none the run goes on with \<^verbatim>\<open>keystore.jks\<close> in the scratch directory as
  the keystore. \<^verbatim>\<open>download\<close> and the block that calls it are the same text in the
  second revision.
\<close>

theorem failed_download_ends_the_run:
  assumes "getenv w ''keystore_url'' \<noteq> []"
    and "\<not> HasPrefix (getenv w ''keystore_url'') ''file://''"
    and "validate (createConfigsModelFromEnvs (getenv w)) = None"
    and "NormalizedOSTempDirPath w ''__bitrise-cordova-build-config__'' = Inr d"
  shows "requests (trace (main_input enc w)) = [getenv w ''keystore_url''] \<and>
         snd (download w (getenv w ''keystore_url'') (Join d ''keystore.jks'')) =
           (case http_Get w (getenv w ''keystore_url'') of
              Inl e \<Rightarrow> Some e
            | Inr resp \<Rightarrow>
                io_Copy w (case os_Create w (Join d ''keystore.jks'') of
                             None \<Rightarrow> Some (Join d ''keystore.jks'') | Some e \<Rightarrow> None)
                  (Body resp)) \<and>
         (\<forall>e. snd (download w (getenv w ''keystore_url'') (Join d ''keystore.jks'')) = Some e \<longrightarrow>
            exit_code (main_input enc w) = 1 \<and>
            last (trace (main_input enc w)) =
              Log Errorf ''Failed to download keystore, error: %s'' [Err e] \<and>
            written (trace (main_input enc w)) = [] \<and>
            published (trace (main_input enc w)) = []) \<and>
         (snd (download w (getenv w ''keystore_url'') (Join d ''keystore.jks'')) = None \<longrightarrow>
            snd (assemble_input w (createConfigsModelFromEnvs (getenv w))) =
              Inr (d, document_for (createConfigsModelFromEnvs (getenv w)) (Join d ''keystore.jks'')))"
proof -
  let ?c = "createConfigsModelFromEnvs (getenv w)"
  let ?u = "getenv w ''keystore_url''"
  have u: "KeystoreURL ?c = ?u" by (simp add: createConfigsModelFromEnvs_simps)
  have 1: "requests (trace (main_input enc w)) = [?u]"
    using assms by (simp add: main_input_requests assemble_input_trace u)
  have 2: "snd (download w ?u (Join d ''keystore.jks'')) =
           (case http_Get w ?u of
              Inl e \<Rightarrow> Some e
            | Inr resp \<Rightarrow>
                io_Copy w (case os_Create w (Join d ''keystore.jks'') of
                             None \<Rightarrow> Some (Join d ''keystore.jks'') | Some e \<Rightarrow> None)
                  (Body resp))"
    by (rule download_result)
  have 3: "exit_code (main_input enc w) = 1 \<and>
            last (trace (main_input enc w)) =
              Log Errorf ''Failed to download keystore, error: %s'' [Err e] \<and>
            written (trace (main_input enc w)) = [] \<and>
            published (trace (main_input enc w)) = []"
    if "snd (download w ?u (Join d ''keystore.jks'')) = Some e" for e
  proof -
    have a: "snd (assemble_input w ?c) = Inl (''Failed to download keystore, error: %s'', [Err e])"
      unfolding assemble_input_def
      using assms that by (intro assemble_download_failed) (simp_all add: u)
    from main_input_failed [OF assms(3) a, of enc]
    have "exit_code (main_input enc w) = 1"
      "last (trace (main_input enc w)) = Log Errorf ''Failed to download keystore, error: %s'' [Err e]"
      by (simp_all add: fail_def)
    moreover have "written (trace (main_input enc w)) = []"
      using a assms(3) by (simp add: main_input_written)
    moreover have "published (trace (main_input enc w)) = []"
      using a assms(3) by (simp add: main_input_published)
    ultimately show ?thesis by blast
  qed
  have 4: "snd (assemble_input w ?c) = Inr (d, document_for ?c (Join d ''keystore.jks''))"
    if "snd (download w ?u (Join d ''keystore.jks'')) = None"
    unfolding assemble_input_def
    using assms that by (intro assemble_download_ok) (simp_all add: u)
  from 1 2 3 4 show ?thesis by blast
qed

text \<open>
  A run whose request fails in the network, and a run whose download succeeds.
\<close>

theorem failed_download_ends_the_run_witness:
  "getenv ((calm_world remote_inputs)\<lparr>http_Get := \<lambda>u. Inl (External ''no such host'')\<rparr>)
     ''keystore_url'' = ''https://example.com/a.jks'' \<and>
   requests (trace (main_input plain_string
     ((calm_world remote_inputs)\<lparr>http_Get := \<lambda>u. Inl (External ''no such host'')\<rparr>))) =
     [''https://example.com/a.jks''] \<and>
   exit_code (main_input plain_string
     ((calm_world remote_inputs)\<lparr>http_Get := \<lambda>u. Inl (External ''no such host'')\<rparr>)) = 1 \<and>
   last (trace (main_input plain_string
     ((calm_world remote_inputs)\<lparr>http_Get := \<lambda>u. Inl (External ''no such host'')\<rparr>))) =
     Log Errorf ''Failed to download keystore, error: %s'' [Err (External ''no such host'')] \<and>
   written (trace (main_input plain_string
     ((calm_world remote_inputs)\<lparr>http_Get := \<lambda>u. Inl (External ''no such host'')\<rparr>))) = [] \<and>
   snd (download (calm_world remote_inputs) ''https://example.com/a.jks''
          ''/tmp/scratch1/keystore.jks'') = None \<and>
   requests (trace (main_input plain_string (calm_world remote_inputs))) =
     [''https://example.com/a.jks''] \<and>
   snd (assemble_input (calm_world remote_inputs)
          (createConfigsModelFromEnvs (getenv (calm_world remote_inputs)))) =
     Inr (''/tmp/scratch1'',
          document_for (createConfigsModelFromEnvs (getenv (calm_world remote_inputs)))
            ''/tmp/scratch1/keystore.jks'')"
proof -
  let ?w = "(calm_world remote_inputs)\<lparr>http_Get := \<lambda>u. Inl (External ''no such host'')\<rparr>"
  let ?v = "calm_world remote_inputs"
  have g: "getenv ?w = env_of remote_inputs" by (simp add: calm_world_def)
  have u: "getenv ?w ''keystore_url'' = ''https://example.com/a.jks''"
    unfolding g by (simp add: env_of_def remote_inputs_def)
  have h1: "getenv ?w ''keystore_url'' \<noteq> []" unfolding u by simp
  have h2: "\<not> HasPrefix (getenv ?w ''keystore_url'') ''file://''"
    unfolding u by (simp add: HasPrefix_def)
  have h3: "validate (createConfigsModelFromEnvs (getenv ?w)) = None"
    unfolding g by (rule remote_validate)
  have h4: "NormalizedOSTempDirPath ?w ''__bitrise-cordova-build-config__'' = Inr ''/tmp/scratch1''"
    by (simp add: calm_world_def)
  have d: "snd (download ?w (getenv ?w ''keystore_url'') (Join ''/tmp/scratch1'' ''keystore.jks'')) =
             Some (External ''no such host'')"
    by (simp add: download_result)
  have failing:
    "requests (trace (main_input plain_string ?w)) = [''https://example.com/a.jks''] \<and>
     exit_code (main_input plain_string ?w) = 1 \<and>
     last (trace (main_input plain_string ?w)) =
       Log Errorf ''Failed to download keystore, error: %s'' [Err (External ''no such host'')] \<and>
     written (trace (main_input plain_string ?w)) = []"
    using u d failed_download_ends_the_run [OF h1 h2 h3 h4, of plain_string]
    by simp
  have gv: "getenv ?v = env_of remote_inputs" by (simp add: calm_world_def)
  have uv: "getenv ?v ''keystore_url'' = ''https://example.com/a.jks''"
    unfolding gv by (simp add: env_of_def remote_inputs_def)
  have k1: "getenv ?v ''keystore_url'' \<noteq> []" unfolding uv by simp
  have k2: "\<not> HasPrefix (getenv ?v ''keystore_url'') ''file://''"
    unfolding uv by (simp add: HasPrefix_def)
  have k3: "validate (createConfigsModelFromEnvs (getenv ?v)) = None"
    unfolding gv by (rule remote_validate)
  have k4: "NormalizedOSTempDirPath ?v ''__bitrise-cordova-build-config__'' = Inr ''/tmp/scratch1''"
    by (simp add: calm_world_def)
  have dv: "snd (download ?v ''https://example.com/a.jks'' ''/tmp/scratch1/keystore.jks'') = None"
    by (simp add: download_result calm_world_def)
  have passing:
    "requests (trace (main_input plain_string ?v)) = [''https://example.com/a.jks''] \<and>
     snd (assemble_input ?v (createConfigsModelFromEnvs (getenv ?v))) =
       Inr (''/tmp/scratch1'',
            document_for (createConfigsModelFromEnvs (getenv ?v)) ''/tmp/scratch1/keystore.jks'')"
    using uv dv failed_download_ends_the_run [OF k1 k2 k3 k4, of plain_string]
    by (simp add: Join_scratch1)
  from u failing dv passing show ?thesis by blast
qed

text \<open>
  The claim as it is written also promises a failure for a response with a non-success
  status. The server answers 404 with a short body: one request, the body is stored as
  the keystore, \<^verbatim>\<open>build.json\<close> is written and published, and the status is 0.
\<close>

theorem failed_download_ends_the_run_counterexample:
  "http_Get ((calm_world remote_inputs)
               \<lparr>http_Get := \<lambda>u. Inr \<lparr>StatusCode = 404, Body = ''Not Found''\<rparr>\<rparr>)
     ''https://example.com/a.jks'' = Inr \<lparr>StatusCode = 404, Body = ''Not Found''\<rparr> \<and>
   requests (trace (main_input plain_string
     ((calm_world remote_inputs)
        \<lparr>http_Get := \<lambda>u. Inr \<lparr>StatusCode = 404, Body = ''Not Found''\<rparr>\<rparr>))) =
     [''https://example.com/a.jks''] \<and>
   exit_code (main_input plain_string
     ((calm_world remote_inputs)
        \<lparr>http_Get := \<lambda>u. Inr \<lparr>StatusCode = 404, Body = ''Not Found''\<rparr>\<rparr>)) = 0 \<and>
   written (trace (main_input plain_string
     ((calm_world remote_inputs)
        \<lparr>http_Get := \<lambda>u. Inr \<lparr>StatusCode = 404, Body = ''Not Found''\<rparr>\<rparr>))) =
     [(''/tmp/scratch1/build.json'',
       MarshalIndent plain_string
         \<lparr>Android = [(''release'',
            \<lparr>Keystore = ''/tmp/scratch1/keystore.jks'', StorePassword = ''upload'',
             Alias = ''upload'', Password = ''s3cret''\<rparr>)],
          IOS = []\<rparr>)] \<and>
   published (trace (main_input plain_string
     ((calm_world remote_inputs)
        \<lparr>http_Get := \<lambda>u. Inr \<lparr>StatusCode = 404, Body = ''Not Found''\<rparr>\<rparr>))) =
     [(''BITRISE_CORDOVA_BUILD_CONFIGURATION'', ''/tmp/scratch1/build.json'')]"
proof -
  let ?w = "(calm_world remote_inputs)
              \<lparr>http_Get := \<lambda>u. Inr \<lparr>StatusCode = 404, Body = ''Not Found''\<rparr>\<rparr>"
  let ?c = "createConfigsModelFromEnvs (env_of remote_inputs)"
  have g: "getenv ?w = env_of remote_inputs" by (simp add: calm_world_def)
  have t: "NormalizedOSTempDirPath ?w ''__bitrise-cordova-build-config__'' = Inr ''/tmp/scratch1''"
    by (simp add: calm_world_def)
  have d: "snd (download ?w ''https://example.com/a.jks'' ''/tmp/scratch1/keystore.jks'') = None"
    by (simp add: download_result calm_world_def)
  have url: "KeystoreURL ?c = ''https://example.com/a.jks''"
    by (simp add: remote_configs)
  have k: "snd (keystorePath ?w ?c ''/tmp/scratch1'') = Inr ''/tmp/scratch1/keystore.jks''"
    using d keystorePath_remote [OF remote_not_local, of ?w "''/tmp/scratch1''"]
    by (simp add: Join_scratch1 url)
  have a: "snd (assemble_input ?w ?c) =
     Inr (''/tmp/scratch1'',
          \<lparr>Android = [(''release'',
            \<lparr>Keystore = ''/tmp/scratch1/keystore.jks'', StorePassword = ''upload'',
             Alias = ''upload'', Password = ''s3cret''\<rparr>)],
           IOS = []\<rparr>)"
  proof -
    obtain evs where "keystorePath ?w ?c ''/tmp/scratch1'' = (evs, Inr ''/tmp/scratch1/keystore.jks'')"
      using k by (cases "keystorePath ?w ?c ''/tmp/scratch1''") simp
    then show ?thesis
      using t url
      by (simp add: assemble_input_def assemble_def androidBuildConfig_def)
         (simp add: remote_configs)
  qed
  have r: "requests (fst (assemble_input ?w ?c)) = [''https://example.com/a.jks'']"
    using t remote_not_local by (simp add: assemble_input_trace remote_configs)
  show ?thesis
    using a r remote_validate
    by (simp add: g main_input_requests main_input_exit_code main_input_written
        main_input_published Join_scratch1 calm_world_simps)
qed

subsection \<open>C3: which inputs are accepted\<close>

text \<open>
  Claim C3 says that a run is accepted exactly when \<^verbatim>\<open>configuration\<close> is
  \<^verbatim>\<open>release\<close> or \<^verbatim>\<open>debug\<close> and \<^verbatim>\<open>package_type\<close> is one of the five allowed
  values, and rejected with a non-zero status otherwise. \<^verbatim>\<open>validate\<close> of the first
  revision does exactly that (\<open>validate_None_iff\<close>, \<open>main_input_rejected\<close>). The
  second revision does not: with \<^verbatim>\<open>configuration=staging\<close> and
  \<^verbatim>\<open>package_type=beta\<close>, which the first revision rejects with status 1, it writes a
  document with an \<^verbatim>\<open>ios\<close> section under the key \<^verbatim>\<open>staging\<close>, publishes its path
  and ends with status 0.
\<close>

theorem stepconf_accepts_unlisted_values:
  "validate (createConfigsModelFromEnvs
     (getenv (calm_world [(''configuration'', ''staging''), (''package_type'', ''beta'')]))) =
     Some (Wrapped ''Configuration: %s'' (InvalidParameter ''staging'' [''release'', ''debug''])) \<and>
   exit_code (main_input plain_string
     (calm_world [(''configuration'', ''staging''), (''package_type'', ''beta'')])) = 1 \<and>
   exit_code (main_stepconf plain_string
     (calm_world [(''configuration'', ''staging''), (''package_type'', ''beta'')])) = 0 \<and>
   written (trace (main_stepconf plain_string
     (calm_world [(''configuration'', ''staging''), (''package_type'', ''beta'')]))) =
     [(''/tmp/scratch1/build.json'',
       indent_json plain_string 0
         (JObject [(''ios'', JObject [(''staging'', JObject [(''packageType'', JString ''beta'')])])]))] \<and>
   published (trace (main_stepconf plain_string
     (calm_world [(''configuration'', ''staging''), (''package_type'', ''beta'')]))) =
     [(''BITRISE_CORDOVA_BUILD_CONFIGURATION'', ''/tmp/scratch1/build.json'')]"
proof -
  let ?w = "calm_world [(''configuration'', ''staging''), (''package_type'', ''beta'')]"
  let ?c = "createConfigsModelFromEnvs (env_of [(''configuration'', ''staging''), (''package_type'', ''beta'')])"
  have v: "validate ?c =
     Some (Wrapped ''Configuration: %s'' (InvalidParameter ''staging'' [''release'', ''debug'']))"
    by (simp add: validate_def ValidateWithOptions_def createConfigsModelFromEnvs_def env_of_def)
  have p: "stepconf_Parse (getenv ?w) = Inr ?c"
    by (simp add: stepconf_Parse_def createConfigsModelFromEnvs_def env_of_def calm_world_simps)
  have a: "snd (assemble_stepconf ?w ?c) =
     Inr (''/tmp/scratch1'', \<lparr>Android = [], IOS = [(''staging'', iosBuildConfig ?c)]\<rparr>)"
    by (simp add: assemble_stepconf_def assemble_def calm_world_simps
        createConfigsModelFromEnvs_def env_of_def)
  have m: "MarshalIndent plain_string \<lparr>Android = [], IOS = [(''staging'', iosBuildConfig ?c)]\<rparr> =
     indent_json plain_string 0
         (JObject [(''ios'', JObject [(''staging'', JObject [(''packageType'', JString ''beta'')])])])"
    by (simp add: MarshalIndent_def marshal_BuildConfiguration_def marshal_map_def
        marshal_IOSBuildConfigurationItem_def omitempty_def iosBuildConfig_def
        createConfigsModelFromEnvs_def env_of_def)
  show ?thesis
    using v p a m
    by (simp add: main_input_exit_code main_stepconf_exit_code main_stepconf_written
        main_stepconf_published calm_world_simps Join_scratch1)
qed

subsection \<open>C4: nothing to generate\<close>

text \<open>
  Claim C4, as amended. When \<^verbatim>\<open>keystore_url\<close> is empty and \<^verbatim>\<open>package_type\<close> is
  \<^verbatim>\<open>none\<close>, no \<^verbatim>\<open>build.json\<close> is written and nothing is published, and the run
  ends with status 0 exactly when the input check has passed (\<^verbatim>\<open>configuration\<close> is
  \<^verbatim>\<open>release\<close> or \<^verbatim>\<open>debug\<close> in the first revision, non-empty in the second) and the
  scratch directory could be created; otherwise it ends with status 1.
\<close>

theorem nothing_to_generate:
  assumes "getenv w ''keystore_url'' = []" and "getenv w ''package_type'' = ''none''"
  shows "written (trace (main_input enc w)) = [] \<and>
         published (trace (main_input enc w)) = [] \<and>
         exit_code (main_input enc w) =
           (if getenv w ''configuration'' \<in> {''release'', ''debug''} \<and>
               (\<exists>d. NormalizedOSTempDirPath w ''__bitrise-cordova-build-config__'' = Inr d)
            then 0 else 1) \<and>
         written (trace (main_stepconf enc w)) = [] \<and>
         published (trace (main_stepconf enc w)) = [] \<and>
         exit_code (main_stepconf enc w) =
           (if getenv w ''configuration'' \<noteq> [] \<and>
               (\<exists>d. NormalizedOSTempDirPath w ''__bitrise-cordova-build-config__'' = Inr d)
            then 0 else 1)"
proof -
  let ?c = "createConfigsModelFromEnvs (getenv w)"
  have c: "KeystoreURL ?c = []" "PackageType ?c = ''none''"
    using assms by (simp_all add: createConfigsModelFromEnvs_simps)
  have a1: "snd (assemble_input w ?c) =
     (case NormalizedOSTempDirPath w ''__bitrise-cordova-build-config__'' of
        Inl e \<Rightarrow> Inl (''Failed to create tmp dir, error: %s'', [Err e])
      | Inr d \<Rightarrow> Inr (d, \<lparr>Android = [], IOS = []\<rparr>))"
    unfolding assemble_input_def using c by (rule assemble_nothing)
  have a2: "snd (assemble_stepconf w ?c) =
     (case NormalizedOSTempDirPath w ''__bitrise-cordova-build-config__'' of
        Inl e \<Rightarrow> Inl (''Failed to create tmp dir, error: %s'', [Err e])
      | Inr d \<Rightarrow> Inr (d, \<lparr>Android = [], IOS = []\<rparr>))"
    unfolding assemble_stepconf_def using c by (rule assemble_nothing)
  have v: "validate ?c = None \<longleftrightarrow> getenv w ''configuration'' \<in> {''release'', ''debug''}"
    using c by (simp add: validate_None_iff createConfigsModelFromEnvs_simps)
  have p: "stepconf_Parse (getenv w) =
     (if getenv w ''configuration'' = [] then Inl (RequiredNotPresent ''Configuration'') else Inr ?c)"
    by (simp add: stepconf_Parse_def createConfigsModelFromEnvs_def)
  have i1: "written (trace (main_input enc w)) = []"
    using a1 by (simp add: main_input_written split: option.splits sum.splits)
  have i2: "published (trace (main_input enc w)) = []"
    using a1 by (simp add: main_input_published split: option.splits sum.splits)
  have i3: "exit_code (main_input enc w) =
           (if getenv w ''configuration'' \<in> {''release'', ''debug''} \<and>
               (\<exists>d. NormalizedOSTempDirPath w ''__bitrise-cordova-build-config__'' = Inr d)
            then 0 else 1)"
    using a1 v by (auto simp: main_input_exit_code split: option.splits sum.splits)
  have s1: "written (trace (main_stepconf enc w)) = []"
    using a2 p by (simp add: main_stepconf_written split: sum.splits)
  have s2: "published (trace (main_stepconf enc w)) = []"
    using a2 p by (simp add: main_stepconf_published split: sum.splits)
  have s3: "exit_code (main_stepconf enc w) =
           (if getenv w ''configuration'' \<noteq> [] \<and>
               (\<exists>d. NormalizedOSTempDirPath w ''__bitrise-cordova-build-config__'' = Inr d)
            then 0 else 1)"
    using a2 p by (auto simp: main_stepconf_exit_code split: sum.splits)
  from i1 i2 i3 s1 s2 s3 show ?thesis by blast
qed

text \<open>The run with \<^verbatim>\<open>configuration=release\<close> and nothing else but \<^verbatim>\<open>package_type=none\<close>.\<close>

theorem nothing_to_generate_witness:
  "getenv (calm_world [(''configuration'', ''release''), (''package_type'', ''none'')]) ''keystore_url'' = [] \<and>
   getenv (calm_world [(''configuration'', ''release''), (''package_type'', ''none'')]) ''package_type'' = ''none'' \<and>
   exit_code (main_input plain_string
     (calm_world [(''configuration'', ''release''), (''package_type'', ''none'')])) = 0 \<and>
   written (trace (main_input plain_string
     (calm_world [(''configuration'', ''release''), (''package_type'', ''none'')]))) = [] \<and>
   published (trace (main_input plain_string
     (calm_world [(''configuration'', ''release''), (''package_type'', ''none'')]))) = []"
proof -
  let ?w = "calm_world [(''configuration'', ''release''), (''package_type'', ''none'')]"
  have h1: "getenv ?w ''keystore_url'' = []" by (simp add: calm_world_simps env_of_def)
  have h2: "getenv ?w ''package_type'' = ''none''" by (simp add: calm_world_simps env_of_def)
  have h3: "getenv ?w ''configuration'' = ''release''" by (simp add: calm_world_simps env_of_def)
  show ?thesis
    using h1 h2 h3 nothing_to_generate [OF h1 h2, of plain_string]
    by (simp add: calm_world_simps)
qed

text \<open>
  The claim as it is written promises status 0 from the two empty inputs alone. With
  \<^verbatim>\<open>configuration=staging\<close> the first revision stops at \<^verbatim>\<open>validate\<close> with status
  1, and with a valid configuration it stops with status 1 when the scratch directory
  cannot be created.
\<close>

theorem nothing_to_generate_counterexample:
  "getenv (calm_world [(''configuration'', ''staging''), (''package_type'', ''none'')]) ''keystore_url'' = [] \<and>
   getenv (calm_world [(''configuration'', ''staging''), (''package_type'', ''none'')]) ''package_type'' = ''none'' \<and>
   exit_code (main_input plain_string
     (calm_world [(''configuration'', ''staging''), (''package_type'', ''none'')])) = 1 \<and>
   getenv ((calm_world [(''configuration'', ''release''), (''package_type'', ''none'')])
             \<lparr>NormalizedOSTempDirPath := \<lambda>p. Inl (External ''no space left on device'')\<rparr>)
     ''keystore_url'' = [] \<and>
   getenv ((calm_world [(''configuration'', ''release''), (''package_type'', ''none'')])
             \<lparr>NormalizedOSTempDirPath := \<lambda>p. Inl (External ''no space left on device'')\<rparr>)
     ''package_type'' = ''none'' \<and>
   exit_code (main_input plain_string
     ((calm_world [(''configuration'', ''release''), (''package_type'', ''none'')])
        \<lparr>NormalizedOSTempDirPath := \<lambda>p. Inl (External ''no space left on device'')\<rparr>)) = 1"
  by (simp add: main_input_exit_code calm_world_def env_of_def validate_def
      ValidateWithOptions_def createConfigsModelFromEnvs_def assemble_input_def assemble_def)

subsection \<open>C5: a local keystore\<close>

text \<open>
  Claim C5. When \<^verbatim>\<open>keystore_url\<close> is \<^verbatim>\<open>file://\<close> followed by a path, no request is
  sent in the run, whichever the revision and however the run ends. The assembly of the
  document, the same in both revisions, comes out in one of three ways and no other: it
  fails when the scratch directory cannot be created; it fails with
  \<^verbatim>\<open>Failed to expand path\<close> when \<^verbatim>\<open>pathutil.AbsPath\<close> returns an error for that
  path (the prefix stripped); and whenever \<^verbatim>\<open>pathutil.AbsPath\<close> returns a path, the
  document is assembled and its Android map is the one entry whose \<^verbatim>\<open>keystore\<close> is
  that absolute path, beside the three credentials as they were given. Where
  \<^verbatim>\<open>validate\<close> has passed, the first revision then hands the serialization of that
  document to the file writer.
\<close>

theorem local_keystore_is_made_absolute:
  assumes "getenv w ''keystore_url'' = ''file://'' @ pth"
  shows "requests (trace (main_input enc w)) = [] \<and>
         requests (trace (main_stepconf enc w)) = [] \<and>
         snd (assemble_input w (createConfigsModelFromEnvs (getenv w))) =
           (case NormalizedOSTempDirPath w ''__bitrise-cordova-build-config__'' of
              Inl e \<Rightarrow> Inl (''Failed to create tmp dir, error: %s'', [Err e])
            | Inr d \<Rightarrow>
                (case AbsPath w pth of
                   Inl e \<Rightarrow> Inl (''Failed to expand path (%s), error: %s'', [Str pth, Err e])
                 | Inr a \<Rightarrow>
                     Inr (d,
                       \<lparr>Android =
                          [(getenv w ''configuration'',
                            \<lparr>Keystore = a,
                             StorePassword = getenv w ''keystore_password'',
                             Alias = getenv w ''keystore_alias'',
                             Password = getenv w ''private_key_password''\<rparr>)],
                        IOS = (if getenv w ''package_type'' \<noteq> ''none''
                               then [(getenv w ''configuration'',
                                      iosBuildConfig (createConfigsModelFromEnvs (getenv w)))]
                               else [])\<rparr>))) \<and>
         snd (assemble_stepconf w (createConfigsModelFromEnvs (getenv w))) =
           snd (assemble_input w (createConfigsModelFromEnvs (getenv w))) \<and>
         written (trace (main_input enc w)) =
           (case validate (createConfigsModelFromEnvs (getenv w)) of
              Some e \<Rightarrow> []
            | None \<Rightarrow>
                (case NormalizedOSTempDirPath w ''__bitrise-cordova-build-config__'' of
                   Inl e \<Rightarrow> []
                 | Inr d \<Rightarrow>
                     (case AbsPath w pth of
                        Inl e \<Rightarrow> []
                      | Inr a \<Rightarrow>
                          [(Join d ''build.json'',
                            MarshalIndent enc
                              \<lparr>Android =
                                 [(getenv w ''configuration'',
                                   \<lparr>Keystore = a,
                                    StorePassword = getenv w ''keystore_password'',
                                    Alias = getenv w ''keystore_alias'',
                                    Password = getenv w ''private_key_password''\<rparr>)],
                               IOS = (if getenv w ''package_type'' \<noteq> ''none''
                                      then [(getenv w ''configuration'',
                                             iosBuildConfig (createConfigsModelFromEnvs (getenv w)))]
                                      else [])\<rparr>)])))"
proof -
  let ?c = "createConfigsModelFromEnvs (getenv w)"
  have u: "KeystoreURL ?c = ''file://'' @ pth"
    using assms by (simp add: createConfigsModelFromEnvs_simps)
  have ne: "KeystoreURL ?c \<noteq> []" unfolding u by simp
  have hp: "HasPrefix (KeystoreURL ?c) ''file://''"
    unfolding u by (rule HasPrefix_append)
  have tp: "TrimPrefix (KeystoreURL ?c) ''file://'' = pth"
    unfolding u by (rule TrimPrefix_append)
  have r1: "requests (trace (main_input enc w)) = []"
    using hp by (simp add: main_input_requests assemble_input_trace split: option.splits sum.splits)
  have r2: "requests (trace (main_stepconf enc w)) = []"
  proof (cases "stepconf_Parse (getenv w)")
    case (Inl e)
    then show ?thesis by (simp add: main_stepconf_requests)
  next
    case (Inr c)
    then have "c = ?c" by (rule stepconf_Parse_Inr)
    with Inr hp show ?thesis
      by (simp add: main_stepconf_requests assemble_stepconf_trace split: sum.splits)
  qed
  have kp: "keystorePath w ?c d =
              (case AbsPath w pth of
                 Inl e \<Rightarrow> ([], Inl (''Failed to expand path (%s), error: %s'', [Str pth, Err e]))
               | Inr a \<Rightarrow> ([], Inr a))" for d
    using hp tp by (simp add: keystorePath_def Let_def)
  have doc: "snd (assemble_input w ?c) =
           (case NormalizedOSTempDirPath w ''__bitrise-cordova-build-config__'' of
              Inl e \<Rightarrow> Inl (''Failed to create tmp dir, error: %s'', [Err e])
            | Inr d \<Rightarrow>
                (case AbsPath w pth of
                   Inl e \<Rightarrow> Inl (''Failed to expand path (%s), error: %s'', [Str pth, Err e])
                 | Inr a \<Rightarrow>
                     Inr (d,
                       \<lparr>Android =
                          [(getenv w ''configuration'',
                            \<lparr>Keystore = a,
                             StorePassword = getenv w ''keystore_password'',
                             Alias = getenv w ''keystore_alias'',
                             Password = getenv w ''private_key_password''\<rparr>)],
                        IOS = (if getenv w ''package_type'' \<noteq> ''none''
                               then [(getenv w ''configuration'', iosBuildConfig ?c)]
                               else [])\<rparr>)))"
    using ne
    by (simp add: assemble_input_def assemble_def kp Let_def androidBuildConfig_def
        createConfigsModelFromEnvs_simps split: sum.splits)
  have same: "snd (assemble_stepconf w ?c) = snd (assemble_input w ?c)"
    by (rule assemble_stepconf_document)
  have wr: "written (trace (main_input enc w)) =
           (case validate ?c of
              Some e \<Rightarrow> []
            | None \<Rightarrow>
                (case NormalizedOSTempDirPath w ''__bitrise-cordova-build-config__'' of
                   Inl e \<Rightarrow> []
                 | Inr d \<Rightarrow>
                     (case AbsPath w pth of
                        Inl e \<Rightarrow> []
                      | Inr a \<Rightarrow>
                          [(Join d ''build.json'',
                            MarshalIndent enc
                              \<lparr>Android =
                                 [(getenv w ''configuration'',
                                   \<lparr>Keystore = a,
                                    StorePassword = getenv w ''keystore_password'',
                                    Alias = getenv w ''keystore_alias'',
                                    Password = getenv w ''private_key_password''\<rparr>)],
                               IOS = (if getenv w ''package_type'' \<noteq> ''none''
                                      then [(getenv w ''configuration'', iosBuildConfig ?c)]
                                      else [])\<rparr>)])))"
    by (simp add: main_input_written doc split: option.splits sum.splits)
  from r1 r2 doc same wr show ?thesis by blast
qed

text \<open>
  The run with \<^verbatim>\<open>keystore_url=file://a.jks\<close> in the working directory
  \<^verbatim>\<open>/work\<close>: the keystore of the document is \<^verbatim>\<open>/work/a.jks\<close>, not the path as
  given. The run with \<^verbatim>\<open>keystore_url=file://\<close>: there is no path to make absolute
  and the assembly fails.
\<close>

theorem local_keystore_is_made_absolute_witness:
  "getenv (calm_world relative_inputs) ''keystore_url'' = ''file://'' @ ''a.jks'' \<and>
   AbsPath (calm_world relative_inputs) ''a.jks'' = Inr ''/work/a.jks'' \<and>
   requests (trace (main_input plain_string (calm_world relative_inputs))) = [] \<and>
   requests (trace (main_stepconf plain_string (calm_world relative_inputs))) = [] \<and>
   snd (assemble_input (calm_world relative_inputs)
          (createConfigsModelFromEnvs (getenv (calm_world relative_inputs)))) =
     Inr (''/tmp/scratch1'',
          \<lparr>Android = [(''release'',
             \<lparr>Keystore = ''/work/a.jks'', StorePassword = [], Alias = [], Password = []\<rparr>)],
           IOS = []\<rparr>) \<and>
   written (trace (main_input plain_string (calm_world relative_inputs))) =
     [(''/tmp/scratch1/build.json'',
       MarshalIndent plain_string
         \<lparr>Android = [(''release'',
            \<lparr>Keystore = ''/work/a.jks'', StorePassword = [], Alias = [], Password = []\<rparr>)],
          IOS = []\<rparr>)] \<and>
   getenv (calm_world pathless_inputs) ''keystore_url'' = ''file://'' @ [] \<and>
   AbsPath (calm_world pathless_inputs) [] = Inl (External ''No Path provided'') \<and>
   snd (assemble_input (calm_world pathless_inputs)
          (createConfigsModelFromEnvs (getenv (calm_world pathless_inputs)))) =
     Inl (''Failed to expand path (%s), error: %s'', [Str [], Err (External ''No Path provided'')]) \<and>
   written (trace (main_input plain_string (calm_world pathless_inputs))) = []"
proof -
  let ?w = "calm_world relative_inputs"
  let ?v = "calm_world pathless_inputs"
  have h: "getenv ?w ''keystore_url'' = ''file://'' @ ''a.jks''"
    by (simp add: calm_world_simps env_of_def relative_inputs_def)
  have a: "AbsPath ?w ''a.jks'' = Inr ''/work/a.jks''"
    by (simp add: calm_world_def Join_def Clean_def)
  have e: "getenv ?w ''configuration'' = ''release''" "getenv ?w ''package_type'' = ''none''"
    "getenv ?w ''keystore_password'' = []" "getenv ?w ''keystore_alias'' = []"
    "getenv ?w ''private_key_password'' = []"
    by (simp_all add: calm_world_simps env_of_def relative_inputs_def)
  have v: "validate (createConfigsModelFromEnvs (getenv ?w)) = None"
    by (simp add: validate_None_iff createConfigsModelFromEnvs_simps e)
  have t: "NormalizedOSTempDirPath ?w ''__bitrise-cordova-build-config__'' = Inr ''/tmp/scratch1''"
    by (simp add: calm_world_simps)
  have relative:
    "requests (trace (main_input plain_string ?w)) = [] \<and>
     requests (trace (main_stepconf plain_string ?w)) = [] \<and>
     snd (assemble_input ?w (createConfigsModelFromEnvs (getenv ?w))) =
       Inr (''/tmp/scratch1'',
            \<lparr>Android = [(''release'',
               \<lparr>Keystore = ''/work/a.jks'', StorePassword = [], Alias = [], Password = []\<rparr>)],
             IOS = []\<rparr>) \<and>
     written (trace (main_input plain_string ?w)) =
       [(''/tmp/scratch1/build.json'',
         MarshalIndent plain_string
           \<lparr>Android = [(''release'',
              \<lparr>Keystore = ''/work/a.jks'', StorePassword = [], Alias = [], Password = []\<rparr>)],
            IOS = []\<rparr>)]"
    using local_keystore_is_made_absolute [OF h, of plain_string]
    by (simp add: a e v t Join_scratch1)
  have h': "getenv ?v ''keystore_url'' = ''file://'' @ []"
    by (simp add: calm_world_simps env_of_def pathless_inputs_def)
  have a': "AbsPath ?v [] = Inl (External ''No Path provided'')"
    by (simp add: calm_world_def)
  have e': "getenv ?v ''configuration'' = ''release''" "getenv ?v ''package_type'' = ''none''"
    by (simp_all add: calm_world_simps env_of_def pathless_inputs_def)
  have v': "validate (createConfigsModelFromEnvs (getenv ?v)) = None"
    by (simp add: validate_None_iff createConfigsModelFromEnvs_simps e')
  have t': "NormalizedOSTempDirPath ?v ''__bitrise-cordova-build-config__'' = Inr ''/tmp/scratch1''"
    by (simp add: calm_world_simps)
  have pathless:
    "snd (assemble_input ?v (createConfigsModelFromEnvs (getenv ?v))) =
       Inl (''Failed to expand path (%s), error: %s'', [Str [], Err (External ''No Path provided'')]) \<and>
     written (trace (main_input plain_string ?v)) = []"
    using local_keystore_is_made_absolute [OF h', of plain_string]
    by (simp add: a' v' t')
  from h a relative h' a' pathless show ?thesis by blast
qed

subsection \<open>C6: the validation gate and the first input or output\<close>

text \<open>
  The first revision (lines 141-150): a run whose \<^verbatim>\<open>configuration\<close> is neither
  \<^verbatim>\<open>release\<close> nor \<^verbatim>\<open>debug\<close>, or whose \<^verbatim>\<open>package_type\<close> is none of the five
  allowed values, ends with status 1 and has sent no request, created no directory and
  no file (the scratch directory included), written no \<^verbatim>\<open>build.json\<close> and published
  nothing: all it has done is log.
\<close>

lemma first_revision_gate_before_io:
  assumes "getenv w ''configuration'' \<notin> {''release'', ''debug''} \<or>
           getenv w ''package_type'' \<notin>
             {''none'', ''development'', ''enterprise'', ''ad-hoc'', ''app-store''}"
  shows "exit_code (main_input enc w) = 1 \<and>
         requests (trace (main_input enc w)) = [] \<and>
         created (trace (main_input enc w)) = [] \<and>
         written (trace (main_input enc w)) = [] \<and>
         published (trace (main_input enc w)) = []"
proof -
  from assms have "validate (createConfigsModelFromEnvs (getenv w)) \<noteq> None"
    by (simp add: validate_None_iff createConfigsModelFromEnvs_simps)
  then obtain e where "validate (createConfigsModelFromEnvs (getenv w)) = Some e"
    by blast
  then have "main_input enc w =
           \<lparr>exit_code = 1,
            trace = Println # print_configs (createConfigsModelFromEnvs (getenv w)) @
                    [Log Errorf ''Issue with input: %s'' [Err e]]\<rparr>"
    by (rule main_input_rejected)
  then show ?thesis
    by (simp add: print_configs_def readers_simps)
qed

lemma staging_stepconf_trace:
  "trace (main_stepconf enc (calm_world staging_inputs)) =
     [StepconfPrint (createConfigsModelFromEnvs (env_of staging_inputs)),
      TempDir ''__bitrise-cordova-build-config__'', Println,
      Log Infof ''Adding android build config'' [],
      Log Printf ''download keystore'' [],
      OsCreate ''/tmp/scratch1/keystore.jks'',
      HttpGet ''https://example.com/a.jks'',
      IoCopy ''/tmp/scratch1/keystore.jks'',
      BodyClose,
      FileClose (Some ''/tmp/scratch1/keystore.jks''),
      Println,
      Log Infof ''Generating config file'' [],
      Log Printf ''content:'' [],
      Log Printf
        (MarshalIndent enc
           \<lparr>Android = [(''staging'',
              \<lparr>Keystore = ''/tmp/scratch1/keystore.jks'', StorePassword = [], Alias = [],
               Password = []\<rparr>)],
            IOS = []\<rparr>) [],
      WriteBytesToFile ''/tmp/scratch1/build.json''
        (MarshalIndent enc
           \<lparr>Android = [(''staging'',
              \<lparr>Keystore = ''/tmp/scratch1/keystore.jks'', StorePassword = [], Alias = [],
               Password = []\<rparr>)],
            IOS = []\<rparr>),
      EnvmanAdd ''BITRISE_CORDOVA_BUILD_CONFIGURATION'' ''/tmp/scratch1/build.json'',
      Log Donef
        ''The build.json path is now available in the Environment Variable: BITRISE_CORDOVA_BUILD_CONFIGURATION (value: %s)''
        [Str ''/tmp/scratch1/build.json'']] \<and>
   exit_code (main_stepconf enc (calm_world staging_inputs)) = 0"
proof -
  have c: "createConfigsModelFromEnvs (env_of staging_inputs) =
     \<lparr>Configuration = ''staging'', DevelopmentTeam = [], CodeSignIdentity = [],
      ProvisioningProfile = [], PackageType = ''none'',
      KeystoreURL = ''https://example.com/a.jks'', KeystorePassword = [],
      KeystoreAlias = [], PrivateKeyPassword = []\<rparr>"
    by (simp add: createConfigsModelFromEnvs_def env_of_def staging_inputs_def)
  have p: "stepconf_Parse (getenv (calm_world staging_inputs)) =
             Inr (createConfigsModelFromEnvs (env_of staging_inputs))"
    by (simp add: stepconf_Parse_def createConfigsModelFromEnvs_def calm_world_simps env_of_def
        staging_inputs_def)
  have a: "assemble_stepconf (calm_world staging_inputs)
             (createConfigsModelFromEnvs (env_of staging_inputs)) =
     ([TempDir ''__bitrise-cordova-build-config__'', Println,
       Log Infof ''Adding android build config'' [],
       Log Printf ''download keystore'' [],
       OsCreate ''/tmp/scratch1/keystore.jks'',
       HttpGet ''https://example.com/a.jks'',
       IoCopy ''/tmp/scratch1/keystore.jks'',
       BodyClose,
       FileClose (Some ''/tmp/scratch1/keystore.jks'')],
      Inr (''/tmp/scratch1'',
           \<lparr>Android = [(''staging'',
              \<lparr>Keystore = ''/tmp/scratch1/keystore.jks'', StorePassword = [], Alias = [],
               Password = []\<rparr>)],
            IOS = []\<rparr>))"
    unfolding c
    by (simp add: assemble_stepconf_def assemble_def keystorePath_def download_def HasPrefix_def
        calm_world_simps Join_scratch1 androidBuildConfig_def Let_def)
  have m: "fst (printableConfigBytes enc (createConfigsModelFromEnvs (env_of staging_inputs))
             \<lparr>Android = [(''staging'',
                \<lparr>Keystore = ''/tmp/scratch1/keystore.jks'', StorePassword = [], Alias = [],
                 Password = []\<rparr>)],
              IOS = []\<rparr> b) =
           MarshalIndent enc
             \<lparr>Android = [(''staging'',
                \<lparr>Keystore = ''/tmp/scratch1/keystore.jks'', StorePassword = [], Alias = [],
                 Password = []\<rparr>)],
              IOS = []\<rparr>" for b
    unfolding c by (simp add: printableConfigBytes_def Let_def)
  show ?thesis
    using p a
    by (simp add: main_stepconf_def m publish_def exportEnvironmentWithEnvman_def
        calm_world_simps Join_scratch1 Let_def)
qed

text \<open>
  Claim C6 says that on any run with a \<^verbatim>\<open>configuration\<close> or \<^verbatim>\<open>package_type\<close>
  outside the allowed values the process fails before it has sent a request or created
  a file or a directory. The first revision does (\<open>first_revision_gate_before_io\<close>):
  with \<^verbatim>\<open>configuration=staging\<close> and a keystore to download it ends with status 1
  after its log lines. The second revision has no check of the enumerated values: on
  the same inputs it creates the scratch directory, sends the request, creates and
  fills \<^verbatim>\<open>keystore.jks\<close>, writes \<^verbatim>\<open>build.json\<close> with an Android section under the
  key \<^verbatim>\<open>staging\<close>, publishes its path and ends with status 0.
\<close>

theorem stepconf_has_no_gate_before_io:
  "getenv (calm_world staging_inputs) ''configuration'' = ''staging'' \<and>
   exit_code (main_input plain_string (calm_world staging_inputs)) = 1 \<and>
   requests (trace (main_input plain_string (calm_world staging_inputs))) = [] \<and>
   created (trace (main_input plain_string (calm_world staging_inputs))) = [] \<and>
   exit_code (main_stepconf plain_string (calm_world staging_inputs)) = 0 \<and>
   requests (trace (main_stepconf plain_string (calm_world staging_inputs))) =
     [''https://example.com/a.jks''] \<and>
   created (trace (main_stepconf plain_string (calm_world staging_inputs))) =
     [''__bitrise-cordova-build-config__'', ''/tmp/scratch1/keystore.jks'',
      ''/tmp/scratch1/keystore.jks'', ''/tmp/scratch1/build.json''] \<and>
   written (trace (main_stepconf plain_string (calm_world staging_inputs))) =
     [(''/tmp/scratch1/build.json'',
       MarshalIndent plain_string
         \<lparr>Android = [(''staging'',
            \<lparr>Keystore = ''/tmp/scratch1/keystore.jks'', StorePassword = [], Alias = [],
             Password = []\<rparr>)],
          IOS = []\<rparr>)] \<and>
   published (trace (main_stepconf plain_string (calm_world staging_inputs))) =
     [(''BITRISE_CORDOVA_BUILD_CONFIGURATION'', ''/tmp/scratch1/build.json'')]"
proof -
  let ?w = "calm_world staging_inputs"
  have g: "getenv ?w ''configuration'' = ''staging''"
    by (simp add: calm_world_simps env_of_def staging_inputs_def)
  then have h: "getenv ?w ''configuration'' \<notin> {''release'', ''debug''} \<or>
           getenv ?w ''package_type'' \<notin>
             {''none'', ''development'', ''enterprise'', ''ad-hoc'', ''app-store''}"
    by simp
  have first: "exit_code (main_input plain_string ?w) = 1 \<and>
     requests (trace (main_input plain_string ?w)) = [] \<and>
     created (trace (main_input plain_string ?w)) = []"
    using first_revision_gate_before_io [OF h, of plain_string] by blast
  have second: "exit_code (main_stepconf plain_string ?w) = 0 \<and>
     requests (trace (main_stepconf plain_string ?w)) = [''https://example.com/a.jks''] \<and>
     created (trace (main_stepconf plain_string ?w)) =
       [''__bitrise-cordova-build-config__'', ''/tmp/scratch1/keystore.jks'',
        ''/tmp/scratch1/keystore.jks'', ''/tmp/scratch1/build.json''] \<and>
     written (trace (main_stepconf plain_string ?w)) =
       [(''/tmp/scratch1/build.json'',
         MarshalIndent plain_string
           \<lparr>Android = [(''staging'',
              \<lparr>Keystore = ''/tmp/scratch1/keystore.jks'', StorePassword = [], Alias = [],
               Password = []\<rparr>)],
            IOS = []\<rparr>)] \<and>
     published (trace (main_stepconf plain_string ?w)) =
       [(''BITRISE_CORDOVA_BUILD_CONFIGURATION'', ''/tmp/scratch1/build.json'')]"
    using staging_stepconf_trace [of plain_string]
    by (simp add: requests_def created_def written_def published_def)
  from g first second show ?thesis by blast
qed

subsection \<open>C7: one configuration name\<close>

text \<open>
  Claim C7. In every assembled document the Android map is empty or is one entry, the
  iOS map is empty or is one entry, and the key of either entry is the
  \<^verbatim>\<open>Configuration\<close> input; the masking of the second revision (lines 401-409)
  rewrites the Android entry in place and leaves the keys of both maps as they were.
  Where \<^verbatim>\<open>validate\<close> has passed, that key is \<^verbatim>\<open>release\<close> or \<^verbatim>\<open>debug\<close>.
\<close>

theorem one_configuration_key:
  assumes "assemble sep ha hi w c = (tr, Inr (d, bc))"
  shows "map fst (Android bc) \<in> {[], [Configuration c]} \<and>
         map fst (IOS bc) \<in> {[], [Configuration c]} \<and>
         map fst (Android (snd (printableConfigBytes enc c bc b))) = map fst (Android bc) \<and>
         IOS (snd (printableConfigBytes enc c bc b)) = IOS bc \<and>
         (validate c = None \<longrightarrow> Configuration c \<in> {''release'', ''debug''})"
proof -
  from assemble_Inr [OF assms] obtain k where bc: "bc = document_for c k" by blast
  have 1: "map fst (Android bc) \<in> {[], [Configuration c]}"
    by (simp add: bc document_for_def)
  have 2: "map fst (IOS bc) \<in> {[], [Configuration c]}"
    by (simp add: bc document_for_def)
  have 3: "map fst (Android (snd (printableConfigBytes enc c bc b))) = map fst (Android bc)"
    by (simp add: bc document_for_def printableConfigBytes_def Let_def)
  have 4: "IOS (snd (printableConfigBytes enc c bc b)) = IOS bc"
    by (simp add: printableConfigBytes_def Let_def split: option.splits)
  have 5: "validate c = None \<longrightarrow> Configuration c \<in> {''release'', ''debug''}"
    by (simp add: validate_None_iff)
  from 1 2 3 4 5 show ?thesis by blast
qed

text \<open>The document of the release build with a local keystore: both keys are \<^verbatim>\<open>release\<close>.\<close>

theorem one_configuration_key_witness:
  "assemble_input (calm_world local_inputs)
     (createConfigsModelFromEnvs (getenv (calm_world local_inputs))) =
     (local_trace, Inr (''/tmp/scratch1'', local_document)) \<and>
   validate (createConfigsModelFromEnvs (getenv (calm_world local_inputs))) = None \<and>
   Configuration (createConfigsModelFromEnvs (getenv (calm_world local_inputs))) = ''release'' \<and>
   map fst (Android local_document) = [''release''] \<and>
   map fst (IOS local_document) = [''release''] \<and>
   map fst (Android (snd (printableConfigBytes plain_string
     (createConfigsModelFromEnvs (getenv (calm_world local_inputs))) local_document []))) =
     [''release'']"
proof -
  have v: "validate (createConfigsModelFromEnvs (getenv (calm_world local_inputs))) = None"
    unfolding local_configs by (simp add: validate_def ValidateWithOptions_def)
  have c: "Configuration (createConfigsModelFromEnvs (getenv (calm_world local_inputs))) = ''release''"
    unfolding local_configs by simp
  have d: "map fst (Android local_document) = [''release'']"
    "map fst (IOS local_document) = [''release'']"
    by (simp_all add: local_document_def)
  show ?thesis
    using v c d local_assemble one_configuration_key [OF local_assemble, of plain_string "[]"]
    by (simp add: assemble_input_def)
qed

subsection \<open>C8: what the serialization leaves out\<close>



subsection \<open>C9: the same inputs give the same bytes\<close>

text \<open>
  Claim C9. Take two runs of the first revision with the same environment and the same
  working context (\<^verbatim>\<open>pathutil.AbsPath\<close> answers alike), each writing its
  \<^verbatim>\<open>build.json\<close> into its own scratch directory. When the keystore is downloaded, each
  file is the serialization of the same document but for the keystore path, which is
  \<^verbatim>\<open>keystore.jks\<close> in the run's scratch directory; in every other case the two files
  are byte for byte the same. The serialization is a function of the document: members
  in the order of the struct fields, map keys sorted.
\<close>

theorem same_inputs_same_bytes:
  assumes "getenv w1 = getenv w2" and "AbsPath w1 = AbsPath w2"
    and "written (trace (main_input enc w1)) = [(p1, b1)]"
    and "written (trace (main_input enc w2)) = [(p2, b2)]"
  shows "\<exists>d1 d2.
           NormalizedOSTempDirPath w1 ''__bitrise-cordova-build-config__'' = Inr d1 \<and>
           NormalizedOSTempDirPath w2 ''__bitrise-cordova-build-config__'' = Inr d2 \<and>
           p1 = Join d1 ''build.json'' \<and> p2 = Join d2 ''build.json'' \<and>
           (if getenv w1 ''keystore_url'' \<noteq> [] \<and>
               \<not> HasPrefix (getenv w1 ''keystore_url'') ''file://''
            then b1 = MarshalIndent enc
                        (document_for (createConfigsModelFromEnvs (getenv w1))
                           (Join d1 ''keystore.jks'')) \<and>
                 b2 = MarshalIndent enc
                        (document_for (createConfigsModelFromEnvs (getenv w1))
                           (Join d2 ''keystore.jks''))
            else b1 = b2)"
proof -
  let ?c = "createConfigsModelFromEnvs (getenv w1)"
  have c2: "createConfigsModelFromEnvs (getenv w2) = ?c" using assms(1) by simp
  from main_input_written_cases [OF assms(3)] obtain tr1 d1 k1
    where a1: "assemble_input w1 ?c = (tr1, Inr (d1, document_for ?c k1))"
      and p1: "p1 = Join d1 ''build.json''"
      and b1: "b1 = MarshalIndent enc (document_for ?c k1)"
    by blast
  from main_input_written_cases [OF assms(4)] obtain tr2 d2 k2
    where a2: "assemble_input w2 ?c = (tr2, Inr (d2, document_for ?c k2))"
      and p2: "p2 = Join d2 ''build.json''"
      and b2: "b2 = MarshalIndent enc (document_for ?c k2)"
    unfolding c2 by blast
  from assemble_Inr [OF a1 [unfolded assemble_input_def]] obtain e1 k1'
    where t1: "NormalizedOSTempDirPath w1 ''__bitrise-cordova-build-config__'' = Inr d1"
      and kp1: "KeystoreURL ?c \<noteq> [] \<longrightarrow> keystorePath w1 ?c d1 = (e1, Inr k1')"
      and e1: "document_for ?c k1 = document_for ?c k1'"
    by blast
  from assemble_Inr [OF a2 [unfolded assemble_input_def]] obtain e2 k2'
    where t2: "NormalizedOSTempDirPath w2 ''__bitrise-cordova-build-config__'' = Inr d2"
      and kp2: "KeystoreURL ?c \<noteq> [] \<longrightarrow> keystorePath w2 ?c d2 = (e2, Inr k2')"
      and e2: "document_for ?c k2 = document_for ?c k2'"
    by blast
  have u: "KeystoreURL ?c = getenv w1 ''keystore_url''"
    by (simp add: createConfigsModelFromEnvs_simps)
  have "if getenv w1 ''keystore_url'' \<noteq> [] \<and>
               \<not> HasPrefix (getenv w1 ''keystore_url'') ''file://''
            then b1 = MarshalIndent enc (document_for ?c (Join d1 ''keystore.jks'')) \<and>
                 b2 = MarshalIndent enc (document_for ?c (Join d2 ''keystore.jks''))
            else b1 = b2"
  proof (cases "getenv w1 ''keystore_url'' = []")
    case True
    then have "document_for ?c k1 = document_for ?c k2"
      using u by (simp add: document_for_no_keystore)
    with True b1 b2 show ?thesis by simp
  next
    case False
    with kp1 kp2 u have k1: "keystorePath w1 ?c d1 = (e1, Inr k1')"
      and k2: "keystorePath w2 ?c d2 = (e2, Inr k2')" by simp_all
    show ?thesis
    proof (cases "HasPrefix (getenv w1 ''keystore_url'') ''file://''")
      case True
      with keystorePath_Inr [OF k1] keystorePath_Inr [OF k2] u assms(2)
      have "k1' = k2'" by simp
      with True b1 b2 e1 e2 show ?thesis by simp
    next
      case nonlocal: False
      with keystorePath_Inr [OF k1] keystorePath_Inr [OF k2] u
      have "k1' = Join d1 ''keystore.jks''" "k2' = Join d2 ''keystore.jks''" by simp_all
      with False nonlocal b1 b2 e1 e2 show ?thesis by simp
    qed
  qed
  with t1 t2 p1 p2 show ?thesis by blast
qed

text \<open>
  The release build with a local keystore, run into two scratch directories: the same
  bytes. The build with a keystore to download, run into the same two directories: the
  same document but for the keystore path.
\<close>

theorem same_inputs_same_bytes_witness:
  "getenv (calm_world local_inputs) =
     getenv ((calm_world local_inputs)\<lparr>NormalizedOSTempDirPath := \<lambda>p. Inr ''/tmp/scratch2''\<rparr>) \<and>
   AbsPath (calm_world local_inputs) =
     AbsPath ((calm_world local_inputs)\<lparr>NormalizedOSTempDirPath := \<lambda>p. Inr ''/tmp/scratch2''\<rparr>) \<and>
   HasPrefix (getenv (calm_world local_inputs) ''keystore_url'') ''file://'' \<and>
   written (trace (main_input plain_string (calm_world local_inputs))) =
     [(''/tmp/scratch1/build.json'', MarshalIndent plain_string local_document)] \<and>
   written (trace (main_input plain_string
     ((calm_world local_inputs)\<lparr>NormalizedOSTempDirPath := \<lambda>p. Inr ''/tmp/scratch2''\<rparr>))) =
     [(''/tmp/scratch2/build.json'', MarshalIndent plain_string local_document)] \<and>
   getenv (calm_world remote_inputs) ''keystore_url'' = ''https://example.com/a.jks'' \<and>
   written (trace (main_input plain_string (calm_world remote_inputs))) =
     [(''/tmp/scratch1/build.json'',
       MarshalIndent plain_string
         (document_for (createConfigsModelFromEnvs (env_of remote_inputs))
            ''/tmp/scratch1/keystore.jks''))] \<and>
   written (trace (main_input plain_string
     ((calm_world remote_inputs)\<lparr>NormalizedOSTempDirPath := \<lambda>p. Inr ''/tmp/scratch2''\<rparr>))) =
     [(''/tmp/scratch2/build.json'',
       MarshalIndent plain_string
         (document_for (createConfigsModelFromEnvs (env_of remote_inputs))
            ''/tmp/scratch2/keystore.jks''))]"
proof -
  let ?l2 = "(calm_world local_inputs)\<lparr>NormalizedOSTempDirPath := \<lambda>p. Inr ''/tmp/scratch2''\<rparr>"
  let ?r1 = "calm_world remote_inputs"
  let ?r2 = "(calm_world remote_inputs)\<lparr>NormalizedOSTempDirPath := \<lambda>p. Inr ''/tmp/scratch2''\<rparr>"
  have g: "getenv (calm_world local_inputs) = getenv ?l2" by simp
  have a: "AbsPath (calm_world local_inputs) = AbsPath ?l2" by simp
  have h: "HasPrefix (getenv (calm_world local_inputs) ''keystore_url'') ''file://''"
    by (simp add: calm_world_simps env_of_def local_inputs_def HasPrefix_def)
  have gr: "getenv ?r1 = getenv ?r2" by simp
  have ar: "AbsPath ?r1 = AbsPath ?r2" by simp
  have u: "getenv ?r1 ''keystore_url'' = ''https://example.com/a.jks''"
    by (simp add: calm_world_simps env_of_def remote_inputs_def)
  have w1: "written (trace (main_input plain_string ?r1)) =
     [(''/tmp/scratch1/build.json'',
       MarshalIndent plain_string
         (document_for (createConfigsModelFromEnvs (env_of remote_inputs))
            ''/tmp/scratch1/keystore.jks''))]"
    using remote_written [of ?r1 "''/tmp/scratch1''" plain_string]
    by (simp add: calm_world_simps Join_scratch1 download_result)
  have w2: "written (trace (main_input plain_string ?r2)) =
     [(''/tmp/scratch2/build.json'',
       MarshalIndent plain_string
         (document_for (createConfigsModelFromEnvs (env_of remote_inputs))
            ''/tmp/scratch2/keystore.jks''))]"
    using remote_written [of ?r2 "''/tmp/scratch2''" plain_string]
    by (simp add: calm_world_simps Join_scratch2 download_result)
  show ?thesis
    using g a h u w1 w2 local_written [of plain_string] local_written_scratch2 [of plain_string]
      same_inputs_same_bytes [OF g a local_written local_written_scratch2, of plain_string]
      same_inputs_same_bytes [OF gr ar w1 w2]
    by blast
qed

subsection \<open>C10: the keystore field of an Android section\<close>

text \<open>
  Claim C10. Whenever the assembled document has an Android entry, its \<^verbatim>\<open>keystore\<close>
  is the result of \<^verbatim>\<open>pathutil.AbsPath\<close> on the path after \<^verbatim>\<open>file://\<close>, or else
  \<^verbatim>\<open>keystore.jks\<close> joined to the scratch directory; it is not empty, so the
  serialized entry has the member \<^verbatim>\<open>keystore\<close>. The joined path is never empty
  because \<^verbatim>\<open>path.Clean\<close> never returns the empty string; for the local path the
  theorem relies on what \<^verbatim>\<open>pathutil.AbsPath\<close> promises, a non-empty absolute path
  whenever it returns no error.
\<close>

theorem keystore_field_is_never_empty:
  assumes "assemble sep ha hi w c = (tr, Inr (d, bc))"
    and "(k, a) \<in> set (Android bc)"
    and "\<forall>p r. AbsPath w p = Inr r \<longrightarrow> r \<noteq> []"
  shows "Keystore a \<noteq> [] \<and>
         (if HasPrefix (KeystoreURL c) ''file://''
          then AbsPath w (TrimPrefix (KeystoreURL c) ''file://'') = Inr (Keystore a)
          else Keystore a = Join d ''keystore.jks'') \<and>
         map_of (members (marshal_AndroidBuildConfigurationItem a)) ''keystore'' =
           Some (JString (Keystore a))"
proof -
  from assemble_Inr [OF assms(1)] obtain evs p
    where kp: "KeystoreURL c \<noteq> [] \<longrightarrow> keystorePath w c d = (evs, Inr p)"
      and bc: "bc = document_for c p" by blast
  from assms(2) have url: "KeystoreURL c \<noteq> []" and a: "a = androidBuildConfig c p"
    by (auto simp: bc document_for_def split: if_splits)
  from kp url have "keystorePath w c d = (evs, Inr p)" by simp
  from keystorePath_Inr [OF this]
  have cases: "(if HasPrefix (KeystoreURL c) ''file://''
          then AbsPath w (TrimPrefix (KeystoreURL c) ''file://'') = Inr p
          else p = Join d ''keystore.jks'')"
    by auto
  have ne: "p \<noteq> []"
  proof (cases "HasPrefix (KeystoreURL c) ''file://''")
    case True
    with cases assms(3) show ?thesis by auto
  next
    case False
    with cases show ?thesis by (simp add: Join_not_empty)
  qed
  have ks: "Keystore a = p" by (simp add: a androidBuildConfig_def)
  have m: "map_of (members (marshal_AndroidBuildConfigurationItem a)) ''keystore'' =
           Some (JString (Keystore a))"
    using ne ks by (simp add: marshal_AndroidBuildConfigurationItem_def omitempty_def)
  from ne ks cases m show ?thesis by simp
qed

text \<open>The Android entry of the release build with a local keystore.\<close>

theorem keystore_field_is_never_empty_witness:
  "assemble_input (calm_world local_inputs)
     (createConfigsModelFromEnvs (getenv (calm_world local_inputs))) =
     (local_trace, Inr (''/tmp/scratch1'', local_document)) \<and>
   (''release'', local_item) \<in> set (Android local_document) \<and>
   Keystore local_item = ''/tmp/a.jks'' \<and>
   Keystore local_item \<noteq> [] \<and>
   AbsPath (calm_world local_inputs) ''/tmp/a.jks'' = Inr (Keystore local_item) \<and>
   map_of (members (marshal_AndroidBuildConfigurationItem local_item)) ''keystore'' =
     Some (JString ''/tmp/a.jks'')"
proof -
  have m: "(''release'', local_item) \<in> set (Android local_document)"
    by (simp add: local_document_def)
  have k: "Keystore local_item = ''/tmp/a.jks''"
    by (simp add: local_item_def)
  have u: "KeystoreURL (createConfigsModelFromEnvs (getenv (calm_world local_inputs))) =
             ''file://'' @ ''/tmp/a.jks''"
    unfolding local_configs by simp
  show ?thesis
    using m k local_assemble
      keystore_field_is_never_empty [OF local_assemble m calm_AbsPath_not_empty]
    unfolding u
    by (simp add: assemble_input_def HasPrefix_def TrimPrefix_def)
qed

end
